(* ===== verification/Prelude.thy ===== *)
theory Prelude
  imports Main "HOL-Library.Word"
begin

text \<open>
  Shared vocabulary of the ThreadTime development: the C integer types of the
  sources as words (\<open>int32\<close> for Mach's \<open>integer_t\<close>, \<open>int64\<close> for
  \<open>int64_t\<close>), the range predicate that says when a C signed operation is
  defined (signed overflow is undefined behaviour in C), and the lemmas that
  read wrapping word arithmetic back as exact integer arithmetic whenever the
  exact result is in range.  These lemmas are collected in \<open>c_int\<close>, so
  that component proofs say \<open>simp add: c_int\<close>.
\<close>

type_synonym int32 = "32 word"
type_synonym int64 = "64 word"

named_theorems c_int "exact readings of C signed arithmetic on words"

definition fits_signed :: "nat \<Rightarrow> int \<Rightarrow> bool" where
  "fits_signed n k \<longleftrightarrow> - (2 ^ (n - 1)) \<le> k \<and> k < 2 ^ (n - 1)"

abbreviation fits_int64 :: "int \<Rightarrow> bool" where
  "fits_int64 \<equiv> fits_signed 64"

subsection \<open>Signed arithmetic that does not overflow\<close>

lemma sint_add_exact [c_int]:
  fixes a b :: "'a::len word"
  assumes "fits_signed LENGTH('a) (sint a + sint b)"
  shows "sint (a + b) = sint a + sint b"
  using assms by (simp add: fits_signed_def sint_word_ariths signed_take_bit_int_eq_self)

lemma sint_diff_exact [c_int]:
  fixes a b :: "'a::len word"
  assumes "fits_signed LENGTH('a) (sint a - sint b)"
  shows "sint (a - b) = sint a - sint b"
  using assms by (simp add: fits_signed_def sint_word_ariths signed_take_bit_int_eq_self)

lemma sint_mult_exact [c_int]:
  fixes a b :: "'a::len word"
  assumes "fits_signed LENGTH('a) (sint a * sint b)"
  shows "sint (a * b) = sint a * sint b"
  using assms by (simp add: fits_signed_def sint_word_ariths signed_take_bit_int_eq_self)

lemma fits_signed_sint [simp]: "fits_signed LENGTH('a) (sint (w :: 'a::len word))"
  using sint_greater_eq [of w] sint_less [of w] by (simp add: fits_signed_def)

subsection \<open>The integer conversions of the sources\<close>

text \<open>Widening an \<open>int\<close> to \<open>int64_t\<close> (a cast or the usual arithmetic
  conversions) is sign extension, \<open>scast\<close>, and keeps the value.\<close>

lemma sint_scast_int32 [simp, c_int]: "sint (scast (w :: int32) :: int64) = sint w"
  by (simp add: sint_up_scast is_up)

lemma sint_int32_range:
  "- (2 ^ 31) \<le> sint (w :: int32)" "sint (w :: int32) < 2 ^ 31"
  using sint_greater_eq [of w] sint_less [of w] by simp_all

lemma sint_of_nat_small [c_int]:
  assumes "n < 2 ^ (LENGTH('a) - 1)"
  shows "sint (word_of_nat n :: 'a::len word) = int n"
proof -
  have "0 \<le> (2::int) ^ (LENGTH('a) - 1)" by simp
  then have lo: "- (2 ^ (LENGTH('a) - 1)) \<le> int n" by linarith
  from assms have hi: "int n < 2 ^ (LENGTH('a) - 1)"
    by (metis of_nat_less_iff of_nat_numeral of_nat_power)
  from lo hi have "signed_take_bit (LENGTH('a) - 1) (int n) = int n"
    by (rule signed_take_bit_int_eq_self)
  then show ?thesis by (simp add: signed_of_nat)
qed

text \<open>A non-negative signed value survives the trip through \<open>nat\<close>.\<close>

lemma word_of_nat_nat_sint:
  assumes "0 \<le> sint w"
  shows "word_of_nat (nat (sint w)) = (w :: 'a::len word)"
proof -
  from assms have "word_of_nat (nat (sint w)) = (word_of_int (sint w) :: 'a word)"
    by (simp add: word_of_int_nat)
  also have "\<dots> = w" by simp
  finally show ?thesis .
qed

end
