(* ===== verification/Mach_Types.thy ===== *)
theory Mach_Types
  imports Prelude
begin

text \<open>
  The interface between \<open>thread_time.c\<close> and the operating system: the Mach
  types the source includes (\<open>mach/time_value.h\<close>, \<open>mach/thread_info.h\<close>,
  \<open>mach/kern_return.h\<close>) and the two calls it makes, \<open>mach_thread_self\<close> and
  \<open>thread_info\<close>, gathered as a record of operations over an abstract kernel
  state \<open>'k\<close>.  None of this is code of the repository; it is written from the
  Mach headers the source includes.  The client (\<open>Thread_Time\<close>) is stated over
  any \<open>'k mach_api\<close>; \<open>Mach_Kernel\<close> provides one.
\<close>

text \<open>\<open>struct time_value { integer_t seconds; integer_t microseconds; }\<close>\<close>

record time_value_t =
  seconds :: int32
  microseconds :: int32

text \<open>A time value as the kernel produces it: non-negative, with fewer than a
  million microseconds.\<close>

definition time_value_normalized :: "time_value_t \<Rightarrow> bool" where
  "time_value_normalized t \<longleftrightarrow>
     0 \<le> sint (seconds t) \<and> 0 \<le> sint (microseconds t) \<and> sint (microseconds t) < 1000000"

text \<open>The return codes of a kernel call.  \<open>thread_time\<close> distinguishes only
  \<open>KERN_SUCCESS\<close> from the rest.\<close>

datatype kern_return_t = KERN_SUCCESS | KERN_INVALID_ARGUMENT | KERN_FAILURE

text \<open>\<open>struct thread_basic_info\<close>, all fields of the header in their order.\<close>

record thread_basic_info_t =
  user_time :: time_value_t
  system_time :: time_value_t
  cpu_usage :: int32
  policy :: int32
  run_state :: int32
  flags :: int32
  suspend_count :: int32
  sleep_time :: int32

type_synonym mach_port_t = nat
type_synonym thread_flavor_t = nat
type_synonym mach_msg_type_number_t = nat

definition THREAD_BASIC_INFO :: thread_flavor_t where
  "THREAD_BASIC_INFO = 3"

text \<open>\<open>THREAD_BASIC_INFO_COUNT\<close> is the size of \<open>thread_basic_info_data_t\<close> in
  \<open>natural_t\<close> units: two time values of two words each and six words.\<close>

definition THREAD_BASIC_INFO_COUNT :: mach_msg_type_number_t where
  "THREAD_BASIC_INFO_COUNT = 10"

text \<open>\<open>MACH_PORT_UREFS_MAX\<close> (\<open>mach/port.h\<close>): the largest number of user
  references a task can hold on one right, \<open>(1 << 16) - 1\<close>.\<close>

definition MACH_PORT_UREFS_MAX :: nat where
  "MACH_PORT_UREFS_MAX = 65535"

text \<open>
  The calls \<open>thread_time\<close> makes.  \<open>mach_thread_self k t\<close> is the call made by
  thread \<open>t\<close>: it returns a port name for \<open>t\<close> and the kernel state after the
  call (the task gains a send-right reference).  \<open>thread_info k port flavor
  buf count\<close> returns the status, the out buffer and the out count.
\<close>

record 'k mach_api =
  mach_thread_self :: "'k \<Rightarrow> nat \<Rightarrow> mach_port_t \<times> 'k"
  thread_info :: "'k \<Rightarrow> mach_port_t \<Rightarrow> thread_flavor_t \<Rightarrow> thread_basic_info_t \<Rightarrow>
                  mach_msg_type_number_t \<Rightarrow>
                  kern_return_t \<times> thread_basic_info_t \<times> mach_msg_type_number_t"

end
