(* ===== verification/Thread_Time.thy ===== *)
theory Thread_Time
  imports Prelude Mach_Types
begin

text \<open>
  The repository's code: \<open>src/Sources/ThreadTime/include/thread_time.h\<close> (the
  type \<open>thread_time_t\<close> and the two prototypes, as the interface record
  \<open>thread_time_h\<close>) and \<open>src/Sources/ThreadTime/thread_time.c\<close> (the
  functions \<open>time_value_to_us\<close>, \<open>thread_time\<close> and \<open>thread_time_sub\<close>).
  \<open>thread_time\<close> is stated over any implementation \<open>api\<close> of the two Mach
  calls it makes, threading the kernel state through them in the order C
  evaluates them.  The lemmas give each function's result on every branch,
  the exactness of the 64-bit arithmetic, when the difference is defined and
  exact and what it does with the sentinel, the result-type reading of a
  sample (\<open>thread_time_checked\<close>), and the value type's invariant under the
  interface contract of \<open>thread_info\<close>.
\<close>

section \<open>Definitions\<close>

text \<open>\<open>typedef struct thread_time { int64_t user_time_us; int64_t system_time_us; }\<close>\<close>

record thread_time_t =
  user_time_us :: int64
  system_time_us :: int64

text \<open>\<open>(int64_t)t.seconds * 1000000 + t.microseconds\<close>: the cast sign-extends
  the seconds, the constant and the microseconds are converted to \<open>int64_t\<close>
  by the usual arithmetic conversions, and both operations are 64-bit.\<close>

definition time_value_to_us :: "time_value_t \<Rightarrow> int64" where
  "time_value_to_us t = scast (seconds t) * 1000000 + scast (microseconds t)"

text \<open>The compound literal of the success branch.\<close>

definition thread_time_of_info :: "thread_basic_info_t \<Rightarrow> thread_time_t" where
  "thread_time_of_info basic_info =
     \<lparr>user_time_us = time_value_to_us (user_time basic_info),
      system_time_us = time_value_to_us (system_time basic_info)\<rparr>"

text \<open>The compound literal \<open>{-1, -1}\<close> of the failure branch.\<close>

definition thread_time_failed :: thread_time_t where
  "thread_time_failed = \<lparr>user_time_us = -1, system_time_us = -1\<rparr>"

text \<open>
  \<open>thread_time()\<close> as called by thread \<open>self\<close> in kernel state \<open>k\<close>;
  \<open>basic_info\<close> is the uninitialised stack buffer.  The argument
  \<open>mach_thread_self()\<close> is evaluated before \<open>thread_info\<close> runs, the count
  starts at \<open>THREAD_BASIC_INFO_COUNT\<close>, and only \<open>result == KERN_SUCCESS\<close>
  selects the success branch.  The result is the returned value and the kernel
  state after the calls.
\<close>

definition thread_time ::
  "'k mach_api \<Rightarrow> 'k \<Rightarrow> nat \<Rightarrow> thread_basic_info_t \<Rightarrow> thread_time_t \<times> 'k" where
  "thread_time api k self basic_info =
     (let count = THREAD_BASIC_INFO_COUNT in
      case mach_thread_self api k self of
        (port, k') \<Rightarrow>
          (case thread_info api k' port THREAD_BASIC_INFO basic_info count of
             (result, basic_info', count') \<Rightarrow>
               (if result = KERN_SUCCESS then thread_time_of_info basic_info'
                else thread_time_failed, k')))"

text \<open>\<open>thread_time_sub(a, b)\<close>: field-wise 64-bit subtraction.  The model
  wraps; C leaves an overflowing subtraction undefined, which
  \<open>thread_time_sub_defined\<close> below makes explicit.\<close>

definition thread_time_sub :: "thread_time_t \<Rightarrow> thread_time_t \<Rightarrow> thread_time_t" where
  "thread_time_sub a b =
     \<lparr>user_time_us = user_time_us a - user_time_us b,
      system_time_us = system_time_us a - system_time_us b\<rparr>"

text \<open>C's condition for \<open>thread_time_sub(a, b)\<close> to have defined behaviour:
  neither exact difference overflows \<open>int64_t\<close>.\<close>

definition thread_time_sub_defined :: "thread_time_t \<Rightarrow> thread_time_t \<Rightarrow> bool" where
  "thread_time_sub_defined a b \<longleftrightarrow>
     fits_int64 (sint (user_time_us a) - sint (user_time_us b)) \<and>
     fits_int64 (sint (system_time_us a) - sint (system_time_us b))"

text \<open>The reading of a sample the spec asks callers to make: the sentinel
  \<open>{-1, -1}\<close> is a failure, anything else a pair of microsecond counts.\<close>

definition thread_time_checked :: "thread_time_t \<Rightarrow> (int \<times> int) option" where
  "thread_time_checked tt =
     (if user_time_us tt = -1 \<and> system_time_us tt = -1 then None
      else Some (sint (user_time_us tt), sint (system_time_us tt)))"

text \<open>The invariant the spec gives the value type: a sample is the failure
  sentinel or has two non-negative fields.\<close>

definition thread_time_valid :: "thread_time_t \<Rightarrow> bool" where
  "thread_time_valid tt \<longleftrightarrow>
     tt = thread_time_failed \<or> (0 \<le> sint (user_time_us tt) \<and> 0 \<le> sint (system_time_us tt))"

text \<open>\<open>thread_time.h\<close>: the two functions the library declares, as a
  record of operations a client calls through.  The arguments the C
  prototypes leave implicit are explicit here: the kernel state, the calling
  thread and the uninitialised stack buffer of \<open>thread_time()\<close>.  The
  repository's implementation, linked against the Mach calls \<open>api\<close>, is
  \<open>thread_time_lib api\<close>.\<close>

record 'k thread_time_h =
  thread_time_fn :: "'k \<Rightarrow> nat \<Rightarrow> thread_basic_info_t \<Rightarrow> thread_time_t \<times> 'k"
  thread_time_sub_fn :: "thread_time_t \<Rightarrow> thread_time_t \<Rightarrow> thread_time_t"

definition thread_time_lib :: "'k mach_api \<Rightarrow> 'k thread_time_h" where
  "thread_time_lib api = \<lparr>thread_time_fn = thread_time api, thread_time_sub_fn = thread_time_sub\<rparr>"

section \<open>time_value_to_us\<close>

lemma time_value_to_us_mult_fits:
  "fits_signed 64 (sint (s :: int32) * 1000000)"
  using sint_int32_range [of s] by (simp add: fits_signed_def)

lemma time_value_to_us_add_fits:
  "fits_signed 64 (sint (s :: int32) * 1000000 + sint (u :: int32))"
  using sint_int32_range [of s] sint_int32_range [of u] by (simp add: fits_signed_def)

text \<open>The conversion never overflows: every pair of 32-bit seconds and
  microseconds gives the exact count \<open>seconds * 10^6 + microseconds\<close>.\<close>

lemma sint_time_value_to_us:
  "sint (time_value_to_us t) = sint (seconds t) * 1000000 + sint (microseconds t)"
proof -
  have "sint (scast (seconds t) * (1000000 :: int64)) = sint (seconds t) * 1000000"
    using time_value_to_us_mult_fits [of "seconds t"] by (simp add: c_int)
  then show ?thesis
    using time_value_to_us_add_fits [of "seconds t" "microseconds t"]
    by (simp add: time_value_to_us_def c_int)
qed

text \<open>C10: \<open>time_value_to_us\<close> never overflows: for every pair of 32-bit
  fields the result is \<open>seconds * 10^6 + microseconds\<close> exactly, so it lies
  between the values of the extreme pairs.\<close>

theorem time_value_to_us_range:
  "sint (time_value_to_us t) = sint (seconds t) * 1000000 + sint (microseconds t) \<and>
   - (2 ^ 31 * 1000000 + 2 ^ 31) \<le> sint (time_value_to_us t) \<and>
   sint (time_value_to_us t) \<le> (2 ^ 31 - 1) * 1000000 + (2 ^ 31 - 1)"
  using sint_int32_range [of "seconds t"] sint_int32_range [of "microseconds t"]
  by (simp add: sint_time_value_to_us)

section \<open>thread_time on each branch\<close>

lemmas thread_time_unfold = thread_time_def Let_def

text \<open>C4: when \<open>thread_info\<close> reports success, \<open>thread_time\<close> returns the
  converted user and system times of the buffer the call wrote, and the kernel
  state left by \<open>mach_thread_self\<close>.\<close>

theorem thread_time_success:
  assumes "mach_thread_self api k self = (port, k')"
    and "thread_info api k' port THREAD_BASIC_INFO basic_info THREAD_BASIC_INFO_COUNT =
           (KERN_SUCCESS, info, count')"
  shows "thread_time api k self basic_info =
           (\<lparr>user_time_us = time_value_to_us (user_time info),
             system_time_us = time_value_to_us (system_time info)\<rparr>, k')"
  using assms by (simp add: thread_time_unfold thread_time_of_info_def)

text \<open>C5: when \<open>thread_info\<close> reports anything but success, \<open>thread_time\<close>
  returns the sentinel \<open>{-1, -1}\<close>, whatever the buffer holds.\<close>

theorem thread_time_error:
  assumes "mach_thread_self api k self = (port, k')"
    and "thread_info api k' port THREAD_BASIC_INFO basic_info THREAD_BASIC_INFO_COUNT =
           (result, info, count')"
    and "result \<noteq> KERN_SUCCESS"
  shows "thread_time api k self basic_info = (\<lparr>user_time_us = -1, system_time_us = -1\<rparr>, k')"
  using assms by (simp add: thread_time_unfold thread_time_failed_def)

theorem thread_time_success_witness:
  "thread_time \<lparr>mach_thread_self = (\<lambda>k t. (t, k)), thread_info = (\<lambda>k p f b c. (KERN_SUCCESS, b, c))\<rparr>
     (0::nat) 7
     \<lparr>user_time = \<lparr>seconds = 2, microseconds = 3\<rparr>, system_time = \<lparr>seconds = 0, microseconds = 5\<rparr>,
      cpu_usage = 0, policy = 0, run_state = 0, flags = 0, suspend_count = 0, sleep_time = 0\<rparr> =
   (\<lparr>user_time_us = 2000003, system_time_us = 5\<rparr>, 0)"
proof -
  let ?api = "\<lparr>mach_thread_self = (\<lambda>k t. (t, k)), thread_info = (\<lambda>k p f b c. (KERN_SUCCESS, b, c))\<rparr>
                :: nat mach_api"
  let ?b = "\<lparr>user_time = \<lparr>seconds = 2, microseconds = 3\<rparr>, system_time = \<lparr>seconds = 0, microseconds = 5\<rparr>,
             cpu_usage = 0, policy = 0, run_state = 0, flags = 0, suspend_count = 0, sleep_time = 0\<rparr>"
  have "mach_thread_self ?api 0 7 = (7, 0)" by simp
  moreover have "thread_info ?api 0 7 THREAD_BASIC_INFO ?b THREAD_BASIC_INFO_COUNT =
                   (KERN_SUCCESS, ?b, THREAD_BASIC_INFO_COUNT)" by simp
  ultimately have "thread_time ?api 0 7 ?b =
      (\<lparr>user_time_us = time_value_to_us (user_time ?b), system_time_us = time_value_to_us (system_time ?b)\<rparr>, 0)"
    by (rule thread_time_success)
  then show ?thesis by (simp add: time_value_to_us_def)
qed

theorem thread_time_error_witness:
  "thread_time \<lparr>mach_thread_self = (\<lambda>k t. (t, k)), thread_info = (\<lambda>k p f b c. (KERN_INVALID_ARGUMENT, b, c))\<rparr>
     (0::nat) 7
     \<lparr>user_time = \<lparr>seconds = 2, microseconds = 3\<rparr>, system_time = \<lparr>seconds = 0, microseconds = 5\<rparr>,
      cpu_usage = 0, policy = 0, run_state = 0, flags = 0, suspend_count = 0, sleep_time = 0\<rparr> =
   (\<lparr>user_time_us = -1, system_time_us = -1\<rparr>, 0)"
proof -
  let ?api = "\<lparr>mach_thread_self = (\<lambda>k t. (t, k)), thread_info = (\<lambda>k p f b c. (KERN_INVALID_ARGUMENT, b, c))\<rparr>
                :: nat mach_api"
  let ?b = "\<lparr>user_time = \<lparr>seconds = 2, microseconds = 3\<rparr>, system_time = \<lparr>seconds = 0, microseconds = 5\<rparr>,
             cpu_usage = 0, policy = 0, run_state = 0, flags = 0, suspend_count = 0, sleep_time = 0\<rparr>"
  have "mach_thread_self ?api 0 7 = (7, 0)" by simp
  moreover have "thread_info ?api 0 7 THREAD_BASIC_INFO ?b THREAD_BASIC_INFO_COUNT =
                   (KERN_INVALID_ARGUMENT, ?b, THREAD_BASIC_INFO_COUNT)" by simp
  moreover have "KERN_INVALID_ARGUMENT \<noteq> KERN_SUCCESS" by simp
  ultimately show ?thesis by (rule thread_time_error)
qed

section \<open>thread_time_sub\<close>

lemma sint_plus_one:
  assumes "0 \<le> sint (w :: int64)" "sint w < 2 ^ 62"
  shows "sint (w + 1) = sint w + 1"
proof -
  from assms have "fits_signed LENGTH(64) (sint w + sint (1 :: int64))"
    by (simp add: fits_signed_def)
  then show ?thesis by (simp only: sint_add_exact) simp
qed

text \<open>C11: where C defines the subtraction (no signed overflow), the fields
  of \<open>thread_time_sub a b\<close> are the exact differences.\<close>

theorem thread_time_sub_exact:
  assumes "thread_time_sub_defined a b"
  shows "sint (user_time_us (thread_time_sub a b)) = sint (user_time_us a) - sint (user_time_us b) \<and>
         sint (system_time_us (thread_time_sub a b)) = sint (system_time_us a) - sint (system_time_us b)"
  using assms by (simp add: thread_time_sub_def thread_time_sub_defined_def c_int)

theorem thread_time_sub_exact_witness:
  "sint (user_time_us (thread_time_sub \<lparr>user_time_us = 1000, system_time_us = 500\<rparr>
                                        \<lparr>user_time_us = 5000, system_time_us = 2000\<rparr>)) = -4000 \<and>
   sint (system_time_us (thread_time_sub \<lparr>user_time_us = 1000, system_time_us = 500\<rparr>
                                          \<lparr>user_time_us = 5000, system_time_us = 2000\<rparr>)) = -1500"
proof -
  have "thread_time_sub_defined \<lparr>user_time_us = 1000, system_time_us = 500\<rparr>
                                \<lparr>user_time_us = 5000, system_time_us = 2000\<rparr>"
    by (simp add: thread_time_sub_defined_def fits_signed_def)
  from thread_time_sub_exact [OF this] show ?thesis by simp
qed

text \<open>Two samples whose fields are non-negative never make the C
  subtraction overflow.\<close>

lemma thread_time_sub_defined_nonneg:
  assumes "0 \<le> sint (user_time_us a)" "0 \<le> sint (system_time_us a)"
    and "0 \<le> sint (user_time_us b)" "0 \<le> sint (system_time_us b)"
  shows "thread_time_sub_defined a b"
proof -
  have "fits_int64 (sint x - sint y)" if "0 \<le> sint x" "0 \<le> sint y" for x y :: int64
  proof -
    have "sint x < 2 ^ 63" "sint y < 2 ^ 63"
      using sint_less [of x] sint_less [of y] by simp_all
    with that show ?thesis by (simp add: fits_signed_def)
  qed
  with assms show ?thesis by (simp add: thread_time_sub_defined_def)
qed

text \<open>C12: subtracting two samples with non-negative fields (every sample of
  a known thread) is always defined in C and exact: each field of
  \<open>thread_time_sub a b\<close> is the difference of the operands' fields, whatever
  their order, up to the extremes of \<open>int64_t\<close>.\<close>

theorem thread_time_sub_nonneg_exact:
  assumes "0 \<le> sint (user_time_us a)" "0 \<le> sint (system_time_us a)"
    and "0 \<le> sint (user_time_us b)" "0 \<le> sint (system_time_us b)"
  shows "sint (user_time_us (thread_time_sub a b)) = sint (user_time_us a) - sint (user_time_us b) \<and>
         sint (system_time_us (thread_time_sub a b)) = sint (system_time_us a) - sint (system_time_us b)"
  using thread_time_sub_defined_nonneg [OF assms]
  by (simp add: thread_time_sub_def thread_time_sub_defined_def c_int)

theorem thread_time_sub_nonneg_exact_witness:
  "sint (user_time_us (thread_time_sub \<lparr>user_time_us = 0, system_time_us = 0x7FFFFFFFFFFFFFFF\<rparr>
                                        \<lparr>user_time_us = 0x7FFFFFFFFFFFFFFF, system_time_us = 0\<rparr>)) =
     - 0x7FFFFFFFFFFFFFFF \<and>
   sint (system_time_us (thread_time_sub \<lparr>user_time_us = 0, system_time_us = 0x7FFFFFFFFFFFFFFF\<rparr>
                                          \<lparr>user_time_us = 0x7FFFFFFFFFFFFFFF, system_time_us = 0\<rparr>)) =
     0x7FFFFFFFFFFFFFFF"
  using thread_time_sub_nonneg_exact
          [of "\<lparr>user_time_us = 0, system_time_us = 0x7FFFFFFFFFFFFFFF\<rparr>"
              "\<lparr>user_time_us = 0x7FFFFFFFFFFFFFFF, system_time_us = 0\<rparr>"]
  by simp

text \<open>C13: the sentinel does not survive a subtraction.  A failed earlier
  sample turns a valid later one into a delta one microsecond larger than the
  later sample's totals, and two failed samples give \<open>{0, 0}\<close>; the checked
  reading of either delta reports a measurement, not a failure.\<close>

theorem thread_time_sub_sentinel:
  assumes "0 \<le> sint (user_time_us a)" "sint (user_time_us a) < 2 ^ 62"
    and "0 \<le> sint (system_time_us a)" "sint (system_time_us a) < 2 ^ 62"
  shows "thread_time_checked (thread_time_sub a thread_time_failed) =
           Some (sint (user_time_us a) + 1, sint (system_time_us a) + 1) \<and>
         thread_time_checked (thread_time_sub thread_time_failed thread_time_failed) = Some (0, 0)"
proof -
  have u: "sint (user_time_us a + 1) = sint (user_time_us a) + 1"
    using assms(1,2) by (rule sint_plus_one)
  have y: "sint (system_time_us a + 1) = sint (system_time_us a) + 1"
    using assms(3,4) by (rule sint_plus_one)
  have "sint (user_time_us a + 1) \<noteq> sint (-1 :: int64)"
    using u assms(1) by simp
  then have "user_time_us a + 1 \<noteq> -1" by (rule contrapos_nn) (erule arg_cong)
  with u y show ?thesis
    by (simp add: thread_time_checked_def thread_time_sub_def thread_time_failed_def)
qed

theorem thread_time_sub_sentinel_witness:
  "thread_time_checked (thread_time_sub \<lparr>user_time_us = 4000, system_time_us = 1500\<rparr> thread_time_failed) =
     Some (4001, 1501) \<and>
   thread_time_checked (thread_time_sub thread_time_failed thread_time_failed) = Some (0, 0)"
  using thread_time_sub_sentinel [of "\<lparr>user_time_us = 4000, system_time_us = 1500\<rparr>"] by simp

section \<open>The value-type invariant from the interface contract\<close>

text \<open>C18: for any implementation of the two calls whose successful
  \<open>thread_info\<close> reports normalised time values (non-negative, fewer than a
  million microseconds), every result of \<open>thread_time\<close> satisfies the value
  type's invariant: it is the sentinel or has non-negative fields.\<close>

theorem thread_time_valid_contract:
  assumes "mach_thread_self api k self = (port, k')"
    and "\<forall>info c. thread_info api k' port THREAD_BASIC_INFO buf THREAD_BASIC_INFO_COUNT =
                   (KERN_SUCCESS, info, c) \<longrightarrow>
                 time_value_normalized (user_time info) \<and> time_value_normalized (system_time info)"
  shows "thread_time_valid (fst (thread_time api k self buf))"
proof (cases "thread_info api k' port THREAD_BASIC_INFO buf THREAD_BASIC_INFO_COUNT")
  case (fields result info c)
  show ?thesis
  proof (cases "result = KERN_SUCCESS")
    case True
    with assms(2) fields have "time_value_normalized (user_time info)"
      and "time_value_normalized (system_time info)" by auto
    then have "0 \<le> sint (time_value_to_us (user_time info))"
      and "0 \<le> sint (time_value_to_us (system_time info))"
      by (simp_all add: time_value_normalized_def sint_time_value_to_us)
    with True assms(1) fields show ?thesis
      by (simp add: thread_time_unfold thread_time_of_info_def thread_time_valid_def)
  next
    case False
    with assms(1) fields show ?thesis
      by (simp add: thread_time_unfold thread_time_valid_def)
  qed
qed

theorem thread_time_valid_contract_witness:
  "thread_time_valid (fst (thread_time
     \<lparr>mach_thread_self = (\<lambda>k t. (t, k)), thread_info = (\<lambda>k p f b c. (KERN_SUCCESS, b, c))\<rparr>
     (0::nat) 7
     \<lparr>user_time = \<lparr>seconds = 2, microseconds = 3\<rparr>, system_time = \<lparr>seconds = 0, microseconds = 5\<rparr>,
      cpu_usage = 0, policy = 0, run_state = 0, flags = 0, suspend_count = 0, sleep_time = 0\<rparr>))"
  by (rule thread_time_valid_contract [where port = 7 and k' = 0])
     (simp_all add: time_value_normalized_def)

end
