(* ===== verification/Mach_Kernel.thy ===== *)
theory Mach_Kernel
  imports Prelude Mach_Types
begin

text \<open>
  A model of the part of the Mach kernel that \<open>thread_time\<close> talks to, written
  from the Mach headers and the documented behaviour of \<open>mach_thread_self\<close>
  and \<open>thread_info\<close> (none of it is repository code).  The kernel keeps, for
  every live thread, the CPU time it has been charged in user and in kernel
  mode (in microseconds), the next thread identity to hand out, and the number
  of user references the task holds on each thread port.  Threads are created,
  run in either mode, take a reference to their own port, drop a reference and
  terminate; these are the events of a step function \<open>kstep\<close>, and the
  reachable kernel states are an inductive predicate.  The invariant
  \<open>kernel_wf\<close> (no live thread at or beyond the allocation counter) gives the
  monotonicity of a live thread's accounting over any run.
  A port's user-reference count saturates at \<open>MACH_PORT_UREFS_MAX\<close>; a
  saturated (pegged) right is never released, and the last section shows
  that counts stay within the ceiling and a pegged count stays pegged.
\<close>

section \<open>State\<close>

record thread_acct =
  user_us :: nat
  system_us :: nat

record kernel =
  threads :: "nat \<rightharpoonup> thread_acct"
  next_thread :: nat
  urefs :: "mach_port_t \<Rightarrow> nat"

definition kinit :: kernel where
  "kinit = \<lparr>threads = Map.empty, next_thread = 0, urefs = (\<lambda>_. 0)\<rparr>"

section \<open>The two calls\<close>

text \<open>The kernel reports a time as whole seconds and the microseconds left
  over, each stored into an \<open>integer_t\<close>.\<close>

definition time_value_of_us :: "nat \<Rightarrow> time_value_t" where
  "time_value_of_us us =
     \<lparr>seconds = word_of_nat (us div 1000000), microseconds = word_of_nat (us mod 1000000)\<rparr>"

text \<open>The fields \<open>thread_time\<close> does not read are reported as 0 here.\<close>

definition basic_info_of_acct :: "thread_acct \<Rightarrow> thread_basic_info_t" where
  "basic_info_of_acct a =
     \<lparr>user_time = time_value_of_us (user_us a), system_time = time_value_of_us (system_us a),
      cpu_usage = 0, policy = 0, run_state = 0, flags = 0, suspend_count = 0, sleep_time = 0\<rparr>"

text \<open>\<open>mach_thread_self()\<close> by thread \<open>t\<close>: the port name of \<open>t\<close>, with one
  more user reference on it that the caller owns and must release.  As in
  XNU's copy-out of a send right, the count saturates: at
  \<open>MACH_PORT_UREFS_MAX\<close> it is left pegged.\<close>

definition kern_thread_self :: "kernel \<Rightarrow> nat \<Rightarrow> mach_port_t \<times> kernel" where
  "kern_thread_self k t =
     (t, k\<lparr>urefs := (urefs k)(t := min (Suc (urefs k t)) MACH_PORT_UREFS_MAX)\<rparr>)"

text \<open>\<open>thread_info(port, flavor, buf, &count)\<close>: an invalid thread or flavour,
  or a count below the flavour's size, is \<open>KERN_INVALID_ARGUMENT\<close> and leaves
  the buffer untouched; on success the whole structure is written and the
  count set to its size.  Only the basic flavour is modelled.\<close>

definition kern_thread_info ::
  "kernel \<Rightarrow> mach_port_t \<Rightarrow> thread_flavor_t \<Rightarrow> thread_basic_info_t \<Rightarrow> nat \<Rightarrow>
   kern_return_t \<times> thread_basic_info_t \<times> nat" where
  "kern_thread_info k port flavor buf count =
     (case threads k port of
        None \<Rightarrow> (KERN_INVALID_ARGUMENT, buf, count)
      | Some a \<Rightarrow>
          (if flavor \<noteq> THREAD_BASIC_INFO then (KERN_INVALID_ARGUMENT, buf, count)
           else if count < THREAD_BASIC_INFO_COUNT then (KERN_INVALID_ARGUMENT, buf, count)
           else (KERN_SUCCESS, basic_info_of_acct a, THREAD_BASIC_INFO_COUNT)))"

definition mach :: "kernel mach_api" where
  "mach = \<lparr>mach_thread_self = kern_thread_self, thread_info = kern_thread_info\<rparr>"

section \<open>Kernel events\<close>

datatype kevent =
    Spawn
  | Run_user nat nat
  | Run_system nat nat
  | Thread_self nat
  | Port_deallocate nat
  | Terminate nat

text \<open>One event; \<open>None\<close> where the kernel refuses it (an event of a thread that
  is not live, or a release of a reference the task does not hold).  Releasing
  a reference of a pegged right leaves it pegged, as XNU's deallocation of a
  send right does.\<close>

fun kstep :: "kernel \<Rightarrow> kevent \<Rightarrow> kernel option" where
  "kstep k Spawn =
     Some (k\<lparr>threads := (threads k)(next_thread k \<mapsto> \<lparr>user_us = 0, system_us = 0\<rparr>),
             next_thread := Suc (next_thread k)\<rparr>)"
| "kstep k (Run_user t d) =
     (case threads k t of None \<Rightarrow> None
      | Some a \<Rightarrow> Some (k\<lparr>threads := (threads k)(t \<mapsto> a\<lparr>user_us := user_us a + d\<rparr>)\<rparr>))"
| "kstep k (Run_system t d) =
     (case threads k t of None \<Rightarrow> None
      | Some a \<Rightarrow> Some (k\<lparr>threads := (threads k)(t \<mapsto> a\<lparr>system_us := system_us a + d\<rparr>)\<rparr>))"
| "kstep k (Thread_self t) =
     (case threads k t of None \<Rightarrow> None | Some _ \<Rightarrow> Some (snd (kern_thread_self k t)))"
| "kstep k (Port_deallocate p) =
     (if urefs k p = 0 then None
      else if urefs k p = MACH_PORT_UREFS_MAX then Some k
      else Some (k\<lparr>urefs := (urefs k)(p := urefs k p - 1)\<rparr>))"
| "kstep k (Terminate t) =
     (case threads k t of None \<Rightarrow> None | Some _ \<Rightarrow> Some (k\<lparr>threads := (threads k)(t := None)\<rparr>))"

fun krun :: "kernel \<Rightarrow> kevent list \<Rightarrow> kernel option" where
  "krun k [] = Some k"
| "krun k (e # es) = (case kstep k e of None \<Rightarrow> None | Some k' \<Rightarrow> krun k' es)"

fun_cases kstep_Port_deallocateE: "kstep k (Port_deallocate p) = Some k'"

inductive kreach :: "kernel \<Rightarrow> bool" where
  start: "kreach kinit"
| step: "kreach k \<Longrightarrow> kstep k e = Some k' \<Longrightarrow> kreach k'"

text \<open>The thread whose accounting an event changes, if any.\<close>

fun kevent_acct :: "kevent \<Rightarrow> nat option" where
  "kevent_acct Spawn = None"
| "kevent_acct (Run_user t d) = Some t"
| "kevent_acct (Run_system t d) = Some t"
| "kevent_acct (Thread_self t) = None"
| "kevent_acct (Port_deallocate p) = None"
| "kevent_acct (Terminate t) = Some t"

definition kernel_wf :: "kernel \<Rightarrow> bool" where
  "kernel_wf k \<longleftrightarrow> (\<forall>t. next_thread k \<le> t \<longrightarrow> threads k t = None)"

section \<open>The calls on live and dead threads\<close>

lemma kern_thread_self_simps [simp]:
  "fst (kern_thread_self k t) = t"
  "threads (snd (kern_thread_self k t)) = threads k"
  "next_thread (snd (kern_thread_self k t)) = next_thread k"
  "urefs (snd (kern_thread_self k t)) = (urefs k)(t := min (Suc (urefs k t)) MACH_PORT_UREFS_MAX)"
  by (simp_all add: kern_thread_self_def)

lemma kern_thread_info_live:
  "threads k p = Some a \<Longrightarrow>
   kern_thread_info k p THREAD_BASIC_INFO buf THREAD_BASIC_INFO_COUNT =
     (KERN_SUCCESS, basic_info_of_acct a, THREAD_BASIC_INFO_COUNT)"
  by (simp add: kern_thread_info_def)

lemma kern_thread_info_dead:
  "threads k p = None \<Longrightarrow> kern_thread_info k p flavor buf count = (KERN_INVALID_ARGUMENT, buf, count)"
  by (simp add: kern_thread_info_def)

lemma mach_simps [simp]:
  "mach_thread_self mach = kern_thread_self"
  "thread_info mach = kern_thread_info"
  by (simp_all add: mach_def)

section \<open>The invariant and the accounting over runs\<close>

lemma kernel_wf_kinit: "kernel_wf kinit"
  by (simp add: kernel_wf_def kinit_def)

lemma kernel_wf_live_below:
  "kernel_wf k \<Longrightarrow> threads k t = Some a \<Longrightarrow> t < next_thread k"
  by (metis kernel_wf_def not_le option.distinct(1))

lemma kstep_wf: "kstep k e = Some k' \<Longrightarrow> kernel_wf k \<Longrightarrow> kernel_wf k'"
  by (cases e) (auto simp: kernel_wf_def split: option.splits if_splits)

lemma kstep_next_thread_mono: "kstep k e = Some k' \<Longrightarrow> next_thread k \<le> next_thread k'"
  by (cases e) (auto split: option.splits if_splits)

text \<open>A thread that has been allocated and is gone stays gone: identities are
  never handed out twice.\<close>

lemma kstep_dead:
  "kstep k e = Some k' \<Longrightarrow> t < next_thread k \<Longrightarrow> threads k t = None \<Longrightarrow> threads k' t = None"
  by (cases e) (auto split: option.splits if_splits)

lemma kstep_acct_mono:
  assumes "kstep k e = Some k'" "kernel_wf k" "threads k t = Some a" "threads k' t = Some a'"
  shows "user_us a \<le> user_us a' \<and> system_us a \<le> system_us a'"
proof -
  from assms(2,3) have "t < next_thread k" by (rule kernel_wf_live_below)
  with assms(1,3,4) show ?thesis
    by (cases e) (auto split: option.splits if_splits)
qed

lemma krun_wf: "krun k es = Some k' \<Longrightarrow> kernel_wf k \<Longrightarrow> kernel_wf k'"
  by (induction es arbitrary: k) (auto split: option.splits intro: kstep_wf)

lemma krun_dead:
  "krun k es = Some k' \<Longrightarrow> t < next_thread k \<Longrightarrow> threads k t = None \<Longrightarrow> threads k' t = None"
proof (induction es arbitrary: k)
  case Nil
  then show ?case by simp
next
  case (Cons e es)
  then obtain k1 where k1: "kstep k e = Some k1" and run: "krun k1 es = Some k'"
    by (auto split: option.splits)
  from k1 Cons.prems(2,3) have "threads k1 t = None" by (rule kstep_dead)
  moreover from k1 Cons.prems(2) have "t < next_thread k1"
    using kstep_next_thread_mono by (blast intro: order_less_le_trans)
  ultimately show ?case using run by (rule_tac Cons.IH) simp_all
qed

lemma krun_acct_mono:
  assumes "krun k es = Some k'" "kernel_wf k" "threads k t = Some a" "threads k' t = Some a'"
  shows "user_us a \<le> user_us a' \<and> system_us a \<le> system_us a'"
  using assms
proof (induction es arbitrary: k a)
  case Nil
  then show ?case by simp
next
  case (Cons e es)
  then obtain k1 where k1: "kstep k e = Some k1" and run: "krun k1 es = Some k'"
    by (auto split: option.splits)
  from k1 Cons.prems(2) have wf1: "kernel_wf k1" by (rule kstep_wf)
  have lt: "t < next_thread k1"
    using kernel_wf_live_below [OF Cons.prems(2,3)] kstep_next_thread_mono [OF k1] by simp
  show ?case
  proof (cases "threads k1 t")
    case None
    with run lt have "threads k' t = None" by (rule krun_dead)
    with Cons.prems(4) show ?thesis by simp
  next
    case (Some a1)
    with k1 Cons.prems(2,3) have "user_us a \<le> user_us a1 \<and> system_us a \<le> system_us a1"
      by (rule kstep_acct_mono)
    moreover from run wf1 Some Cons.prems(4) have "user_us a1 \<le> user_us a' \<and> system_us a1 \<le> system_us a'"
      by (rule Cons.IH)
    ultimately show ?thesis by linarith
  qed
qed

lemma kreach_wf: "kreach k \<Longrightarrow> kernel_wf k"
  by (induction rule: kreach.induct) (auto simp: kernel_wf_kinit intro: kstep_wf)

text \<open>An event that is not about thread \<open>t\<close> leaves a live \<open>t\<close>'s accounting
  as it was.\<close>

lemma kstep_other_thread:
  assumes "kstep k e = Some k'" "kernel_wf k" "threads k t = Some a" "kevent_acct e \<noteq> Some t"
  shows "threads k' t = Some a"
proof -
  from assms(2,3) have "t < next_thread k" by (rule kernel_wf_live_below)
  with assms(1,3,4) show ?thesis
    by (cases e) (auto split: option.splits if_splits)
qed

lemma time_value_of_us_normalized:
  assumes "n < 2 ^ 31 * 1000000"
  shows "time_value_normalized (time_value_of_us n)"
proof -
  have "n div 1000000 < 2 ^ 31" "n mod 1000000 < 2 ^ 31" using assms by simp_all
  then show ?thesis
    by (simp add: time_value_normalized_def time_value_of_us_def c_int)
qed

section \<open>User references on thread ports\<close>

text \<open>No step takes a reference count above the maximum.\<close>

lemma kstep_urefs_bounded:
  assumes "kstep k e = Some k'" "\<forall>p. urefs k p \<le> MACH_PORT_UREFS_MAX"
  shows "\<forall>p. urefs k' p \<le> MACH_PORT_UREFS_MAX"
proof (cases e)
  case (Port_deallocate q)
  have "urefs k q - 1 \<le> MACH_PORT_UREFS_MAX"
    using assms(2) by (meson diff_le_self le_trans)
  with assms Port_deallocate show ?thesis
    by (auto elim: kstep_Port_deallocateE split: if_splits)
qed (use assms in \<open>auto split: option.splits\<close>)

lemma kreach_urefs_bounded: "kreach k \<Longrightarrow> urefs k p \<le> MACH_PORT_UREFS_MAX"
proof (induction arbitrary: p rule: kreach.induct)
  case start
  then show ?case by (simp add: kinit_def)
next
  case (step k e k')
  then show ?case using kstep_urefs_bounded [of k e k'] by blast
qed

text \<open>A pegged count stays pegged, whatever the kernel does next: a new
  reference is absorbed and a release is ignored.\<close>

lemma kstep_pegged:
  assumes "kstep k e = Some k'" "urefs k p = MACH_PORT_UREFS_MAX"
  shows "urefs k' p = MACH_PORT_UREFS_MAX"
proof (cases e)
  case (Port_deallocate q)
  with assms show ?thesis
    by (auto elim: kstep_Port_deallocateE split: if_splits)
qed (use assms in \<open>auto split: option.splits\<close>)

lemma krun_pegged:
  "krun k es = Some k' \<Longrightarrow> urefs k p = MACH_PORT_UREFS_MAX \<Longrightarrow> urefs k' p = MACH_PORT_UREFS_MAX"
  by (induction es arbitrary: k) (auto split: option.splits dest: kstep_pegged)

end
