(* ===== verification/Mach_Sampling.thy ===== *)
theory Mach_Sampling
  imports Thread_Time Mach_Kernel
begin

text \<open>
  The program on the kernel model: \<open>thread_time mach\<close>.  The first part
  gives its result on live and unknown threads and the exact values of its
  samples; the second lets any number of threads call it, interleaved with
  arbitrary kernel events, and records every call in a log.  The log invariant
  \<open>sample_log_inv\<close> relates the log to the kernel state: every logged
  sample is the conversion of what the kernel had charged the caller at that
  moment, and a thread's charges in the log never exceed, and never decrease
  towards, its current totals.
\<close>

section \<open>Definitions\<close>

text \<open>A thread's accounting can be reported exactly: both totals are below
  \<open>2^31\<close> seconds, the range of \<open>integer_t\<close> seconds.\<close>

definition acct_reportable :: "thread_acct \<Rightarrow> bool" where
  "acct_reportable a \<longleftrightarrow> user_us a < 2 ^ 31 * 1000000 \<and> system_us a < 2 ^ 31 * 1000000"

text \<open>One entry of the log: the calling thread, the sample \<open>thread_time\<close>
  returned, and the accounting the kernel held for the caller when it was
  taken (kept for the proofs; the program never sees it).\<close>

record sample_rec =
  caller :: nat
  sample :: thread_time_t
  charged :: thread_acct

text \<open>An event of the whole system: a kernel event, or a call of
  \<open>thread_time()\<close> by thread \<open>t\<close> with whatever its stack buffer holds.
  Only a live thread runs code, so a call by an unknown thread is refused.\<close>

datatype sys_event = Kernel kevent | Call nat thread_basic_info_t

fun sys_step :: "kernel \<times> sample_rec list \<Rightarrow> sys_event \<Rightarrow> (kernel \<times> sample_rec list) option" where
  "sys_step (k, log) (Kernel e) = map_option (\<lambda>k'. (k', log)) (kstep k e)"
| "sys_step (k, log) (Call t buf) =
     (case threads k t of
        None \<Rightarrow> None
      | Some a \<Rightarrow>
          (case thread_time mach k t buf of
             (s, k') \<Rightarrow> Some (k', log @ [\<lparr>caller = t, sample = s, charged = a\<rparr>])))"

fun sys_run :: "kernel \<times> sample_rec list \<Rightarrow> sys_event list \<Rightarrow> (kernel \<times> sample_rec list) option" where
  "sys_run st [] = Some st"
| "sys_run st (e # es) = (case sys_step st e of None \<Rightarrow> None | Some st' \<Rightarrow> sys_run st' es)"

text \<open>The samples of thread \<open>t\<close> in a log, in the order they were taken.\<close>

definition samples_of :: "nat \<Rightarrow> sample_rec list \<Rightarrow> thread_time_t list" where
  "samples_of t log = map sample (filter (\<lambda>r. caller r = t) log)"

text \<open>Charges compared field by field.\<close>

definition charged_le :: "thread_acct \<Rightarrow> thread_acct \<Rightarrow> bool" where
  "charged_le a b \<longleftrightarrow> user_us a \<le> user_us b \<and> system_us a \<le> system_us b"

text \<open>The log invariant: each entry is the conversion of what was charged,
  its caller was allocated, the caller's current totals (if it is live) are
  at least the logged charge, and a thread's charges appear in order.\<close>

definition sample_log_inv :: "kernel \<Rightarrow> sample_rec list \<Rightarrow> bool" where
  "sample_log_inv k log \<longleftrightarrow>
     (\<forall>r \<in> set log.
        sample r = thread_time_of_info (basic_info_of_acct (charged r)) \<and>
        caller r < next_thread k \<and>
        (\<forall>a. threads k (caller r) = Some a \<longrightarrow> charged_le (charged r) a)) \<and>
     sorted_wrt (\<lambda>r1 r2. caller r1 = caller r2 \<longrightarrow> charged_le (charged r1) (charged r2)) log"

text \<open>One thread sampling itself \<open>n\<close> times in a row, with nothing else
  happening in between: the kernel state after the \<open>n\<close>-th call.\<close>

abbreviation repeat_thread_time :: "nat \<Rightarrow> nat \<Rightarrow> thread_basic_info_t \<Rightarrow> kernel \<Rightarrow> kernel" where
  "repeat_thread_time n t buf \<equiv> (\<lambda>k. snd (thread_time mach k t buf)) ^^ n"

section \<open>thread_time on the kernel model\<close>

lemma sint_time_value_of_us:
  assumes "n < 2 ^ 31 * 1000000"
  shows "sint (time_value_to_us (time_value_of_us n)) = int n"
proof -
  have "n div 1000000 < 2 ^ 31" using assms by simp
  then have s: "sint (word_of_nat (n div 1000000) :: int32) = int (n div 1000000)"
    by (simp add: c_int)
  have "n mod 1000000 < 2 ^ 31" by simp
  then have u: "sint (word_of_nat (n mod 1000000) :: int32) = int (n mod 1000000)"
    by (simp add: c_int)
  have "int (n div 1000000) * 1000000 + int (n mod 1000000) =
        int (n div 1000000 * 1000000 + n mod 1000000)"
    by (simp only: of_nat_add of_nat_mult of_nat_numeral)
  also have "\<dots> = int n" by (simp only: div_mult_mod_eq)
  finally have "int (n div 1000000) * 1000000 + int (n mod 1000000) = int n" .
  with s u show ?thesis
    by (simp add: sint_time_value_to_us time_value_of_us_def)
qed

lemma thread_time_mach_live:
  "threads k t = Some a \<Longrightarrow>
   thread_time mach k t buf = (thread_time_of_info (basic_info_of_acct a), snd (kern_thread_self k t))"
  by (simp add: thread_time_unfold kern_thread_self_def kern_thread_info_live)

lemma thread_time_mach_dead:
  "threads k t = None \<Longrightarrow>
   thread_time mach k t buf = (thread_time_failed, snd (kern_thread_self k t))"
  by (simp add: thread_time_unfold kern_thread_self_def kern_thread_info_dead)

lemma sint_thread_time_of_acct:
  assumes "acct_reportable a"
  shows "sint (user_time_us (thread_time_of_info (basic_info_of_acct a))) = int (user_us a)"
    and "sint (system_time_us (thread_time_of_info (basic_info_of_acct a))) = int (system_us a)"
  using assms
  by (simp_all add: acct_reportable_def thread_time_of_info_def basic_info_of_acct_def sint_time_value_of_us)


lemma fst_thread_time_mach:
  "fst (thread_time mach k t buf) =
     (case threads k t of None \<Rightarrow> thread_time_failed
      | Some a \<Rightarrow> thread_time_of_info (basic_info_of_acct a))"
  by (cases "threads k t") (simp_all add: thread_time_mach_live thread_time_mach_dead)

lemma snd_thread_time_mach: "snd (thread_time mach k t buf) = snd (kern_thread_self k t)"
  by (cases "threads k t") (simp_all add: thread_time_mach_live thread_time_mach_dead)

text \<open>Back-to-back calls add one user reference each to the caller's
  port until the count saturates at \<open>MACH_PORT_UREFS_MAX\<close>; the accounting
  is not touched.\<close>

lemma urefs_repeat_thread_time:
  assumes "urefs k t \<le> MACH_PORT_UREFS_MAX"
  shows "urefs (repeat_thread_time n t buf k) t = min (urefs k t + n) MACH_PORT_UREFS_MAX"
  by (induction n) (use assms in \<open>simp_all add: snd_thread_time_mach min_def\<close>)

lemma threads_repeat_thread_time: "threads (repeat_thread_time n t buf k) = threads k"
  by (induction n) (simp_all add: snd_thread_time_mach)

lemma acct_reportable_mono:
  "acct_reportable a' \<Longrightarrow> user_us a \<le> user_us a' \<Longrightarrow> system_us a \<le> system_us a' \<Longrightarrow> acct_reportable a"
  by (auto simp: acct_reportable_def)

lemma samples_around_run:
  assumes "kreach k" "threads k t = Some a1"
    and s1: "thread_time mach k t buf = (s1, k1)"
    and run: "krun k1 es = Some k2"
    and "threads k2 t = Some a2" "acct_reportable a2"
    and s2: "thread_time mach k2 t buf' = (s2, k3)"
  shows "sint (user_time_us (thread_time_sub s2 s1)) = int (user_us a2) - int (user_us a1)"
    and "sint (system_time_us (thread_time_sub s2 s1)) = int (system_us a2) - int (system_us a1)"
    and "user_us a1 \<le> user_us a2 \<and> system_us a1 \<le> system_us a2"
proof -
  from assms(1) have "kernel_wf k" by (rule kreach_wf)
  moreover have k1: "k1 = snd (kern_thread_self k t)" and s1': "s1 = fst (thread_time mach k t buf)"
    using s1 snd_thread_time_mach [of k t buf] by simp_all
  ultimately have wf1: "kernel_wf k1" by (simp add: kernel_wf_def)
  from k1 assms(2) have "threads k1 t = Some a1" by simp
  with run wf1 have "threads k2 t = Some a2 \<Longrightarrow> user_us a1 \<le> user_us a2 \<and> system_us a1 \<le> system_us a2"
    by (rule_tac krun_acct_mono)
  with assms(5) show mono: "user_us a1 \<le> user_us a2 \<and> system_us a1 \<le> system_us a2"
    by simp
  with assms(6) have "acct_reportable a1" by (blast intro: acct_reportable_mono)
  moreover have "s2 = fst (thread_time mach k2 t buf')" using s2 by simp
  ultimately have u1: "sint (user_time_us s1) = int (user_us a1)"
    and y1: "sint (system_time_us s1) = int (system_us a1)"
    and u2: "sint (user_time_us s2) = int (user_us a2)"
    and y2: "sint (system_time_us s2) = int (system_us a2)"
    using s1' assms(2,5,6) by (simp_all add: fst_thread_time_mach sint_thread_time_of_acct)
  have "fits_int64 (int (user_us a2) - int (user_us a1))" "fits_int64 (int (system_us a2) - int (system_us a1))"
    using mono assms(6) by (simp_all add: fits_signed_def acct_reportable_def)
  with u1 y1 u2 y2 show
    "sint (user_time_us (thread_time_sub s2 s1)) = int (user_us a2) - int (user_us a1)"
    "sint (system_time_us (thread_time_sub s2 s1)) = int (system_us a2) - int (system_us a1)"
    by (simp_all add: thread_time_sub_def c_int)
qed

text \<open>A sample of a reportable account is never the sentinel.\<close>

lemma thread_time_of_acct_not_failed:
  assumes "acct_reportable a"
  shows "thread_time_of_info (basic_info_of_acct a) \<noteq> thread_time_failed"
proof
  assume "thread_time_of_info (basic_info_of_acct a) = thread_time_failed"
  then have "sint (user_time_us (thread_time_of_info (basic_info_of_acct a))) = -1"
    by (simp add: thread_time_failed_def)
  with sint_thread_time_of_acct(1) [OF assms] show False by simp
qed

section \<open>The log invariant over interleaved runs\<close>

lemma charged_le_refl [simp]: "charged_le a a"
  by (simp add: charged_le_def)

lemma charged_le_trans: "charged_le a b \<Longrightarrow> charged_le b c \<Longrightarrow> charged_le a c"
  by (auto simp: charged_le_def)

lemma sample_log_inv_kstep:
  assumes step: "kstep k e = Some k'" and wf: "kernel_wf k" and inv: "sample_log_inv k log"
  shows "sample_log_inv k' log"
proof -
  have "caller r < next_thread k' \<and> (\<forall>a'. threads k' (caller r) = Some a' \<longrightarrow> charged_le (charged r) a')"
    if r: "r \<in> set log" for r
  proof -
    from inv r have lt: "caller r < next_thread k"
      and le: "\<forall>a. threads k (caller r) = Some a \<longrightarrow> charged_le (charged r) a"
      by (auto simp: sample_log_inv_def)
    from step have "next_thread k \<le> next_thread k'" by (rule kstep_next_thread_mono)
    with lt have "caller r < next_thread k'" by simp
    moreover have "charged_le (charged r) a'" if a': "threads k' (caller r) = Some a'" for a'
    proof (cases "threads k (caller r)")
      case None
      with step lt have "threads k' (caller r) = None" by (rule kstep_dead)
      with a' show ?thesis by simp
    next
      case (Some a)
      with step wf a' have "user_us a \<le> user_us a' \<and> system_us a \<le> system_us a'"
        by (rule_tac kstep_acct_mono)
      then have "charged_le a a'" by (simp add: charged_le_def)
      with le Some show ?thesis by (blast intro: charged_le_trans)
    qed
    ultimately show ?thesis by blast
  qed
  with inv show ?thesis by (simp add: sample_log_inv_def)
qed

lemma sample_log_inv_call:
  assumes wf: "kernel_wf k" and inv: "sample_log_inv k log" and a: "threads k t = Some a"
  shows "sample_log_inv (snd (thread_time mach k t buf))
           (log @ [\<lparr>caller = t, sample = fst (thread_time mach k t buf), charged = a\<rparr>])"
proof -
  let ?k' = "snd (thread_time mach k t buf)"
  have th: "threads ?k' = threads k" and nx: "next_thread ?k' = next_thread k"
    by (simp_all add: snd_thread_time_mach)
  have "fst (thread_time mach k t buf) = thread_time_of_info (basic_info_of_acct a)"
    using a by (simp add: fst_thread_time_mach)
  moreover from wf a have "t < next_thread k" by (rule kernel_wf_live_below)
  moreover have "\<forall>r \<in> set log. caller r = t \<longrightarrow> charged_le (charged r) a"
    using inv a by (auto simp: sample_log_inv_def)
  ultimately show ?thesis
    using inv a by (auto simp: sample_log_inv_def th nx sorted_wrt_append)
qed

lemma sys_step_inv:
  assumes "sys_step (k, log) e = Some (k', log')" "kernel_wf k" "sample_log_inv k log"
  shows "kernel_wf k' \<and> sample_log_inv k' log'"
proof (cases e)
  case (Kernel ke)
  with assms(1) have "kstep k ke = Some k'" and "log' = log" by auto
  with assms(2,3) show ?thesis by (blast intro: kstep_wf sample_log_inv_kstep)
next
  case (Call t buf)
  with assms(1) obtain a where a: "threads k t = Some a"
    and k': "k' = snd (thread_time mach k t buf)"
    and log': "log' = log @ [\<lparr>caller = t, sample = fst (thread_time mach k t buf), charged = a\<rparr>]"
    by (auto split: option.splits prod.splits)
  have "kernel_wf k'" using assms(2) k' by (simp add: kernel_wf_def snd_thread_time_mach)
  moreover have "sample_log_inv k' log'"
    unfolding k' log' using assms(2,3) a by (rule sample_log_inv_call)
  ultimately show ?thesis ..
qed

lemma sys_run_inv:
  "sys_run (k, log) es = Some (k', log') \<Longrightarrow> kernel_wf k \<Longrightarrow> sample_log_inv k log \<Longrightarrow>
   kernel_wf k' \<and> sample_log_inv k' log'"
proof (induction es arbitrary: k log)
  case Nil
  then show ?case by simp
next
  case (Cons e es)
  then obtain k1 log1 where st: "sys_step (k, log) e = Some (k1, log1)"
    and run: "sys_run (k1, log1) es = Some (k', log')"
    by (auto split: option.splits)
  from sys_step_inv [OF st Cons.prems(2,3)] have "kernel_wf k1" "sample_log_inv k1 log1" by auto
  with run show ?case by (rule Cons.IH)
qed

lemma sample_log_inv_Nil [simp]: "sample_log_inv k []"
  by (simp add: sample_log_inv_def)

end
