(* ===== verification/Cpu_Clock.thy ===== *)
theory Cpu_Clock
  imports Mach_Sampling
begin

text \<open>
  The library as its clients see it: through the interface record
  \<open>thread_time_h\<close> of \<open>thread_time.h\<close>.  The spec describes the library as a
  provider of per-thread CPU time and its clients as code that samples before
  and after a region of interest and subtracts.  This theory states what a
  provider promises (\<open>cpu_clock_sound\<close>, relative to an abstract reading
  \<open>cpu\<close> of the CPU time of a thread), shows that the repository's
  implementation on the kernel model keeps the promise for the abstract
  reading \<open>cpu_time_spec\<close>, and defines two clients written against the
  interface alone: a checked measurement of a region (\<open>measure_region\<close>) and
  a loop that does work until the caller's user time reaches a target
  (\<open>spin_user\<close>, a \<open>partial_function\<close> in the option monad, \<open>None\<close> being a
  loop that never stops).
\<close>

section \<open>Definitions\<close>

text \<open>What a sample promises (the spec's modernised interface): the calling
  thread's user and system CPU time, or a failure.\<close>

definition cpu_time_spec :: "kernel \<Rightarrow> nat \<Rightarrow> (int \<times> int) option" where
  "cpu_time_spec k t = map_option (\<lambda>a. (int (user_us a), int (system_us a))) (threads k t)"

text \<open>The contract of a provider \<open>lib\<close> of per-thread CPU time (spec, design
  notes), for an abstract reading \<open>cpu\<close> and the states \<open>ok\<close> in which the
  provider is exact: a sample, read with the sentinel check, is the reading;
  sampling charges the caller nothing; readings are non-negative; and the
  difference is exact wherever C defines it.\<close>

definition cpu_clock_sound ::
  "'k thread_time_h \<Rightarrow> ('k \<Rightarrow> nat \<Rightarrow> (int \<times> int) option) \<Rightarrow> ('k \<Rightarrow> nat \<Rightarrow> bool) \<Rightarrow> bool" where
  "cpu_clock_sound lib cpu ok \<longleftrightarrow>
     (\<forall>k t buf. ok k t \<longrightarrow>
        thread_time_checked (fst (thread_time_fn lib k t buf)) = cpu k t \<and>
        cpu (snd (thread_time_fn lib k t buf)) t = cpu k t) \<and>
     (\<forall>k t u s. cpu k t = Some (u, s) \<longrightarrow> 0 \<le> u \<and> 0 \<le> s) \<and>
     (\<forall>a b. thread_time_sub_defined a b \<longrightarrow>
        sint (user_time_us (thread_time_sub_fn lib a b)) = sint (user_time_us a) - sint (user_time_us b) \<and>
        sint (system_time_us (thread_time_sub_fn lib a b)) = sint (system_time_us a) - sint (system_time_us b))"

text \<open>The embedding application of the spec: sample, run the region, sample
  again, and subtract, checking both samples for the sentinel first.  The
  result is \<open>None\<close> when the region itself fails, and otherwise the
  measured delta (\<open>None\<close> if a sample failed) with the final state.\<close>

definition measure_region ::
  "'k thread_time_h \<Rightarrow> ('k \<Rightarrow> 'k option) \<Rightarrow> nat \<Rightarrow> thread_basic_info_t \<Rightarrow> 'k \<Rightarrow>
   ((int \<times> int) option \<times> 'k) option" where
  "measure_region lib region t buf k =
     (case thread_time_fn lib k t buf of
        (before, k1) \<Rightarrow>
          (case region k1 of
             None \<Rightarrow> None
           | Some k2 \<Rightarrow>
               (case thread_time_fn lib k2 t buf of
                  (after, k3) \<Rightarrow>
                    Some (if before = thread_time_failed \<or> after = thread_time_failed then None
                          else let d = thread_time_sub_fn lib after before
                               in Some (sint (user_time_us d), sint (system_time_us d)),
                          k3))))"

text \<open>A client loop: \<open>while (thread_time().user_time_us < target) work();\<close>,
  giving up (\<open>False\<close>) when a sample is the sentinel or the work fails.
  Nothing bounds the number of rounds syntactically, so it is a partial
  function: \<open>None\<close> is the loop running forever.\<close>

partial_function (option) spin_user ::
  "'k thread_time_h \<Rightarrow> ('k \<Rightarrow> 'k option) \<Rightarrow> nat \<Rightarrow> thread_basic_info_t \<Rightarrow> int64 \<Rightarrow> 'k \<Rightarrow>
   (bool \<times> 'k) option" where
  "spin_user lib work t buf target k =
     (case thread_time_fn lib k t buf of
        (s, k1) \<Rightarrow>
          (if s = thread_time_failed then Some (False, k1)
           else if sint target \<le> sint (user_time_us s) then Some (True, k1)
           else (case work k1 of
                   None \<Rightarrow> Some (False, k1)
                 | Some k2 \<Rightarrow> spin_user lib work t buf target k2)))"

section \<open>The sentinel check\<close>

lemma thread_time_checked_None: "thread_time_checked tt = None \<longleftrightarrow> tt = thread_time_failed"
  by (cases tt) (simp add: thread_time_checked_def thread_time_failed_def)

lemma thread_time_checked_Some:
  "thread_time_checked tt = Some p \<longleftrightarrow>
     tt \<noteq> thread_time_failed \<and> p = (sint (user_time_us tt), sint (system_time_us tt))"
  by (cases tt) (auto simp: thread_time_checked_def thread_time_failed_def)

section \<open>The implementation keeps the contract\<close>

lemma thread_time_lib_mach_sound:
  "cpu_clock_sound (thread_time_lib mach) cpu_time_spec (\<lambda>k t. pred_option acct_reportable (threads k t))"
proof -
  have sample: "thread_time_checked (fst (thread_time mach k t buf)) = cpu_time_spec k t"
    if "pred_option acct_reportable (threads k t)" for k t buf
  proof (cases "threads k t")
    case None
    then show ?thesis
      by (simp add: fst_thread_time_mach thread_time_checked_None cpu_time_spec_def)
  next
    case (Some a)
    with that have "acct_reportable a" by simp
    with Some show ?thesis
      by (simp add: fst_thread_time_mach thread_time_checked_Some cpu_time_spec_def
                    sint_thread_time_of_acct thread_time_of_acct_not_failed)
  qed
  have "cpu_time_spec (snd (thread_time mach k t buf)) t = cpu_time_spec k t" for k t buf
    by (simp add: snd_thread_time_mach cpu_time_spec_def)
  moreover have "cpu_time_spec k t = Some (u, s) \<Longrightarrow> 0 \<le> u \<and> 0 \<le> s" for k t u s
    by (auto simp: cpu_time_spec_def)
  moreover have "thread_time_sub_defined a b \<Longrightarrow>
      sint (user_time_us (thread_time_sub a b)) = sint (user_time_us a) - sint (user_time_us b) \<and>
      sint (system_time_us (thread_time_sub a b)) = sint (system_time_us a) - sint (system_time_us b)"
    for a b
    by (simp add: thread_time_sub_def thread_time_sub_defined_def c_int)
  ultimately show ?thesis
    using sample by (simp add: cpu_clock_sound_def thread_time_lib_def)
qed

section \<open>A client measuring a region\<close>

text \<open>For every provider that keeps the contract, a checked measurement of a
  region gets the difference of the abstract readings, or failure when either
  reading is a failure.\<close>

lemma measure_region_sound:
  assumes sound: "cpu_clock_sound lib cpu ok" and ok1: "ok k t"
    and region: "region (snd (thread_time_fn lib k t buf)) = Some k2" and ok2: "ok k2 t"
  shows "measure_region lib region t buf k =
           Some (case (cpu k t, cpu k2 t) of
                   (Some (u1, s1), Some (u2, s2)) \<Rightarrow> Some (u2 - u1, s2 - s1)
                 | _ \<Rightarrow> None,
                 snd (thread_time_fn lib k2 t buf))"
proof -
  obtain before k1 where b: "thread_time_fn lib k t buf = (before, k1)" by fastforce
  obtain after k3 where a: "thread_time_fn lib k2 t buf = (after, k3)" by fastforce
  from sound ok1 ok2 b a
  have cb: "thread_time_checked before = cpu k t" and ca: "thread_time_checked after = cpu k2 t"
    unfolding cpu_clock_sound_def by (metis fst_conv)+
  from region b have r: "region k1 = Some k2" by simp
  show ?thesis
  proof (cases "cpu k t = None \<or> cpu k2 t = None")
    case True
    with cb ca have "before = thread_time_failed \<or> after = thread_time_failed"
      by (auto simp: thread_time_checked_None)
    with True b a r show ?thesis by (auto simp: measure_region_def split: option.splits)
  next
    case False
    then obtain u1 s1 u2 s2 where c1: "cpu k t = Some (u1, s1)" and c2: "cpu k2 t = Some (u2, s2)"
      by auto
    with cb ca have nf: "before \<noteq> thread_time_failed" "after \<noteq> thread_time_failed"
      and v: "sint (user_time_us before) = u1" "sint (system_time_us before) = s1"
             "sint (user_time_us after) = u2" "sint (system_time_us after) = s2"
      by (simp_all add: thread_time_checked_Some)
    from sound c1 c2 have "0 \<le> u1" "0 \<le> s1" "0 \<le> u2" "0 \<le> s2"
      unfolding cpu_clock_sound_def by blast+
    with v have "thread_time_sub_defined after before"
      by (intro thread_time_sub_defined_nonneg) simp_all
    with sound have "sint (user_time_us (thread_time_sub_fn lib after before)) = u2 - u1"
      "sint (system_time_us (thread_time_sub_fn lib after before)) = s2 - s1"
      unfolding cpu_clock_sound_def using v by simp_all
    with nf b a r c1 c2 show ?thesis by (simp add: measure_region_def)
  qed
qed

section \<open>The busy loop on the kernel model\<close>

text \<open>One round of \<open>spin_user\<close> with the work "run one microsecond in user
  mode", from a state where the caller is live: the sample is the caller's
  accounting, and the work charges it.\<close>

lemma spin_user_mach_step:
  assumes "threads k t = Some a" "acct_reportable a"
  shows "spin_user (thread_time_lib mach) (\<lambda>k. kstep k (Run_user t 1)) t buf target k =
           (if sint target \<le> int (user_us a) then Some (True, snd (kern_thread_self k t))
            else spin_user (thread_time_lib mach) (\<lambda>k. kstep k (Run_user t 1)) t buf target
                   (snd (kern_thread_self k t)\<lparr>threads := (threads k)(t \<mapsto> a\<lparr>user_us := user_us a + 1\<rparr>)\<rparr>))"
  using assms
  by (simp add: spin_user.simps [of _ _ _ _ _ k] thread_time_lib_def thread_time_mach_live
                sint_thread_time_of_acct thread_time_of_acct_not_failed)

end
