(* ===== verification/Spec2Isabelle.thy ===== *)
theory Spec2Isabelle
  imports Cpu_Clock
begin

text \<open>
  \<^bold>\<open>ThreadTime: per-thread CPU time on Mach, verified.\<close>

  \<^medskip>\<^bold>\<open>The program.\<close>  The repository is one C file and its header,
  \<open>src/Sources/ThreadTime/thread_time.c\<close> and
  \<open>src/Sources/ThreadTime/include/thread_time.h\<close>.  The header declares the
  value type \<open>thread_time_t\<close> (two \<open>int64_t\<close> fields, user and system
  microseconds).  The C file has three functions: \<open>time_value_to_us\<close>
  converts a Mach \<open>time_value_t\<close> (32-bit seconds and microseconds) to
  microseconds; \<open>thread_time\<close> (the spec's Sample) calls
  \<open>thread_info(mach_thread_self(), THREAD_BASIC_INFO, ...)\<close> and converts the
  reported user and system times, or returns the sentinel \<open>{-1, -1}\<close> when the
  call does not return \<open>KERN_SUCCESS\<close>; \<open>thread_time_sub\<close> (the spec's
  Difference) subtracts two samples field by field.  The only interaction is
  with the kernel, through the two Mach calls; callers (none is in the
  repository) use the library through the two prototypes of the header.

  \<^medskip>\<^bold>\<open>The theories.\<close>
  \<^item> \<open>Prelude\<close>: \<open>int32\<close> and \<open>int64\<close> as \<open>32 word\<close> and \<open>64 word\<close> read
    with \<open>sint\<close>; \<open>fits_signed\<close>, the range in which a C signed operation is
    defined; the collection \<open>c_int\<close> of lemmas that read wrapping word
    arithmetic back as exact integer arithmetic when no overflow happens.
  \<^item> \<open>Mach_Types\<close>: the Mach interface the source includes, written from the
    Mach headers (not repository code): \<open>time_value_t\<close>,
    \<open>thread_basic_info_t\<close> (all its fields), \<open>kern_return_t\<close>,
    \<open>THREAD_BASIC_INFO\<close>, \<open>THREAD_BASIC_INFO_COUNT\<close>, and the record
    \<open>'k mach_api\<close> of the two calls over an abstract kernel state \<open>'k\<close>.
  \<^item> \<open>Thread_Time\<close>: the repository's code.  \<open>thread_time_t\<close> is a record;
    \<open>time_value_to_us\<close> is 64-bit word arithmetic after sign extension
    (\<open>scast\<close>), as C's cast and conversions do; \<open>thread_time api k self buf\<close>
    is \<open>thread_time()\<close> run by thread \<open>self\<close> in kernel state \<open>k\<close> with the
    uninitialised stack buffer \<open>buf\<close>, evaluating \<open>mach_thread_self\<close> first
    and returning the sample with the kernel state after the calls; its two
    compound literals are \<open>thread_time_of_info\<close> and \<open>thread_time_failed\<close>;
    \<open>thread_time_sub\<close> wraps like the machine, and \<open>thread_time_sub_defined\<close>
    states C's condition for it to be defined.  The header's two prototypes
    are the interface record \<open>thread_time_h\<close>, implemented by
    \<open>thread_time_lib\<close>.  \<open>thread_time_checked\<close> is the
    reading of a sample the spec asks of callers (sentinel = failure).  Its
    lemmas are stated over any \<open>api\<close>: the result on the success and on every
    error branch (C4, C5), the exactness and range of the conversion (C10),
    and the difference: exact wherever C defines it (C11), always defined and
    exact on samples with non-negative fields (C12), and what it makes of the
    sentinel (C13).  The interface contract "a successful \<open>thread_info\<close>
    reports normalised time values" gives the value type's invariant
    \<open>thread_time_valid\<close> for every result, for any kernel (C18).
  \<^item> \<open>Mach_Kernel\<close>: an environment model of the kernel, from the documented
    behaviour of the two calls: per live thread the user and system
    microseconds charged, the next thread identity, and the user references the
    task holds on each thread port.  \<open>kern_thread_self\<close> adds a reference,
    up to \<open>MACH_PORT_UREFS_MAX\<close>, where the count saturates and the right is
    pegged: a deallocation no longer lowers it;
    \<open>kern_thread_info\<close> fails with \<open>KERN_INVALID_ARGUMENT\<close> on an unknown
    thread, another flavour or a short count, and otherwise fills the whole
    buffer, splitting each total into \<open>integer_t\<close> seconds and microseconds
    (\<open>time_value_of_us\<close>); \<open>mach\<close> packages them as a \<open>kernel mach_api\<close>.
    The events (create, run in user or kernel mode, take or drop a port
    reference, terminate) form the step function \<open>kstep\<close>, runs are
    \<open>krun\<close>, reachable states the inductive \<open>kreach\<close>.  The invariant
    \<open>kernel_wf\<close> (no live thread at or beyond the allocation counter, so
    identities are never reused) holds in every reachable state, and with it a
    live thread's totals never decrease over a run and events of other threads
    leave them alone.  Every reachable state keeps each count within the
    ceiling, and a pegged count stays pegged over any run.
  \<^item> \<open>Mach_Sampling\<close>: the program on the kernel model, \<open>thread_time mach\<close>:
    its result on known and unknown threads and the exact values of its
    samples (\<open>acct_reportable\<close>: totals below \<open>2^31\<close> seconds).  It also
    defines the whole system: \<open>sys_step\<close> and \<open>sys_run\<close> interleave kernel
    events with calls of \<open>thread_time\<close> by any live thread, appending each
    call to a log (caller, sample, and the accounting at that moment).  The
    invariant \<open>sample_log_inv\<close> relates the log to the kernel state and is
    kept by every step.  \<open>repeat_thread_time n\<close> is one thread calling
    \<open>thread_time\<close> \<open>n\<close> times in a row.
  \<^item> \<open>Cpu_Clock\<close>: the library as clients see it, through the interface
    record \<open>thread_time_h\<close> of the header (declared in \<open>Thread_Time\<close>, with
    the implementation \<open>thread_time_lib api\<close>).  \<open>cpu_time_spec\<close> is the
    abstract promise of a sample; \<open>cpu_clock_sound lib cpu ok\<close> is the
    contract of a provider of per-thread CPU time (spec, design notes), and
    \<open>thread_time_lib mach\<close> keeps it for \<open>cpu_time_spec\<close> on reportable
    threads.  Two clients are written against the interface alone, as the
    spec describes them: \<open>measure_region\<close> samples, runs a region, samples
    and subtracts after checking for the sentinel; \<open>spin_user\<close> works until
    its user time reaches a target, a \<open>partial_function (option)\<close> since no
    syntactic argument bounds its rounds.
  \<^item> This theory composes them: \<open>thread_time mach\<close> is the program running
    on the kernel model.  Its theorems are the spec's properties: the delta of
    two samples around a run is exactly the CPU time charged (C1) and never
    negative (C2); the sample refines \<open>cpu_time_spec\<close>, the abstract promise
    "the calling thread's user and system time, or failure" (C3); the stale
    buffer never matters (C6); each call leaks one port reference, up to the ceiling (C7); the
    conversions round-trip (C8, C9); samples of known threads are valid (C14);
    threads do not disturb each other's samples (C15); a new thread samples
    \<open>{0, 0}\<close> (C16); in every interleaving each thread's own samples are
    non-decreasing (C17); the request \<open>thread_time\<close> makes is
    accepted, so the sentinel comes back exactly for unknown threads (C19);
    and the leak is eventually permanent: after at most
    \<open>MACH_PORT_UREFS_MAX\<close> samples the thread's port is pegged and no later
    run of the kernel releases it (C20, a liveness property: the bad state is
    reached, then holds forever).  Through the interface: a client's checked
    measurement of a region, run on the repository's implementation, gets
    exactly the CPU time charged, or failure when the thread was unknown at a
    sample (C21; the proof goes through the contract, for which
    \<open>Cpu_Clock\<close> proves the generic client lemma and the implementation's
    side), and the busy loop terminates with the user time exactly at its
    target (C22).

  \<^medskip>\<^bold>\<open>Bounds.\<close>  The program has no loops, so no fuel; the client loop
  \<open>spin_user\<close> is a partial function whose termination C22 proves by
  induction on the distance of the user time to the target.  The one bound is
  \<open>acct_reportable\<close>: totals below \<open>2^31\<close> seconds (about 68 years of CPU
  time), the range of the \<open>integer_t\<close> seconds the kernel reports; C8 shows it
  is exactly the range in which a sample equals the total.  No overflow bound
  is needed inside the program: \<open>time_value_to_us\<close> cannot overflow (C10) and
  the subtraction of two samples of a known thread cannot either (C12).
  The kernel model's one constant is \<open>MACH_PORT_UREFS_MAX = 65535\<close>, the
  value of \<open>mach/port.h\<close>; C20 holds for any number of calls at least the
  distance of the current count to it.  C22 asks the target to be a
  reportable time, so every sample on the way reads exactly.

  \<^medskip>\<^bold>\<open>Not modelled.\<close>  The kernel's timer arithmetic in absolute time
  units (the model charges microseconds directly), thread_info flavours other
  than the basic one, the fields of \<open>thread_basic_info\<close> the code does not
  read (reported as 0), other rights and ports of the IPC space, and
  scheduling: runs are arbitrary sequences of events, which covers every
  interleaving of threads on any number of processors.  The code has no loop
  and no recursion: every definition of it is total by construction, and a
  call always returns; the termination property (C22) is that of a client
  loop driven by the samples.  The one
  liveness property is about the environment the calls leave behind (C20):
  the pegged state is reached after a bounded number of calls, which is why
  the reference leak cannot be undone by a later cleanup.  The include guard
  and the \<open>#include\<close> lines carry no behaviour.  No caller of the library is
  part of the repository, so the clients of \<open>Cpu_Clock\<close> are not mapped to
  code: they are the spec's description of how the library is used.
\<close>

section \<open>The composed system\<close>

text \<open>A concrete run used by the witnesses: thread 0, just created, samples,
  runs 1500 microseconds in user mode and 250 in kernel mode, and samples
  again.  The buffer holds arbitrary stale contents.\<close>

abbreviation demo_kernel :: kernel where
  "demo_kernel \<equiv> \<lparr>threads = [0 \<mapsto> \<lparr>user_us = 0, system_us = 0\<rparr>], next_thread = 1, urefs = (\<lambda>_. 0)\<rparr>"

abbreviation demo_buf :: thread_basic_info_t where
  "demo_buf \<equiv> basic_info_of_acct \<lparr>user_us = 7, system_us = 9\<rparr>"

abbreviation demo_events :: "kevent list" where
  "demo_events \<equiv> [Run_user 0 1500, Run_system 0 250]"

abbreviation demo_later :: kernel where
  "demo_later \<equiv> the (krun (snd (thread_time mach demo_kernel 0 demo_buf)) demo_events)"

text \<open>C1: two samples taken by a live thread around any run of the kernel
  differ, field by field, by exactly the user and system time the kernel
  charged the thread in between, as long as the later total is below
  \<open>2^31\<close> seconds.\<close>

theorem thread_time_delta_exact:
  assumes "kreach k" "threads k t = Some a1"
    and "thread_time mach k t buf = (s1, k1)"
    and "krun k1 es = Some k2"
    and "threads k2 t = Some a2" "acct_reportable a2"
    and "thread_time mach k2 t buf' = (s2, k3)"
  shows "sint (user_time_us (thread_time_sub s2 s1)) = int (user_us a2) - int (user_us a1) \<and>
         sint (system_time_us (thread_time_sub s2 s1)) = int (system_us a2) - int (system_us a1)"
  using samples_around_run [OF assms] by simp

lemma demo_run:
  "kreach demo_kernel"
  "threads demo_kernel 0 = Some \<lparr>user_us = 0, system_us = 0\<rparr>"
  "krun (snd (thread_time mach demo_kernel 0 demo_buf)) demo_events = Some demo_later"
  "threads demo_later 0 = Some \<lparr>user_us = 1500, system_us = 250\<rparr>"
  "acct_reportable \<lparr>user_us = 1500, system_us = 250\<rparr>"
proof -
  show "kreach demo_kernel"
    by (rule kreach.step [OF kreach.start, of Spawn]) (simp add: kinit_def)
qed (simp_all add: snd_thread_time_mach kern_thread_self_def acct_reportable_def)

lemma demo_samples:
  "thread_time mach demo_kernel 0 demo_buf =
     (fst (thread_time mach demo_kernel 0 demo_buf), snd (thread_time mach demo_kernel 0 demo_buf))"
  "thread_time mach demo_later 0 demo_buf =
     (fst (thread_time mach demo_later 0 demo_buf), snd (thread_time mach demo_later 0 demo_buf))"
  by simp_all

theorem thread_time_delta_exact_witness:
  "sint (user_time_us (thread_time_sub (fst (thread_time mach demo_later 0 demo_buf))
                                       (fst (thread_time mach demo_kernel 0 demo_buf)))) = 1500 \<and>
   sint (system_time_us (thread_time_sub (fst (thread_time mach demo_later 0 demo_buf))
                                         (fst (thread_time mach demo_kernel 0 demo_buf)))) = 250"
  using thread_time_delta_exact [OF demo_run(1,2) demo_samples(1) demo_run(3,4,5) demo_samples(2)]
  by simp

text \<open>C2: the later of two such samples is never behind the earlier one, in
  either field (the monotonicity the spec requires of samples on one
  thread).\<close>

theorem thread_time_delta_nonneg:
  assumes "kreach k" "threads k t \<noteq> None"
    and "thread_time mach k t buf = (s1, k1)" "krun k1 es = Some k2"
    and "threads k2 t = Some a2" "acct_reportable a2"
    and "thread_time mach k2 t buf' = (s2, k3)"
  shows "0 \<le> sint (user_time_us (thread_time_sub s2 s1)) \<and>
         0 \<le> sint (system_time_us (thread_time_sub s2 s1))"
proof -
  from assms(2) obtain a1 where "threads k t = Some a1" by blast
  from samples_around_run [OF assms(1) this assms(3-7)] show ?thesis by simp
qed

theorem thread_time_delta_nonneg_witness:
  "0 \<le> sint (user_time_us (thread_time_sub (fst (thread_time mach demo_later 0 demo_buf))
                                            (fst (thread_time mach demo_kernel 0 demo_buf)))) \<and>
   0 \<le> sint (system_time_us (thread_time_sub (fst (thread_time mach demo_later 0 demo_buf))
                                              (fst (thread_time mach demo_kernel 0 demo_buf))))"
proof -
  have "threads demo_kernel 0 \<noteq> None" by simp
  from thread_time_delta_nonneg [OF demo_run(1) this demo_samples(1) demo_run(3,4,5) demo_samples(2)]
  show ?thesis .
qed

text \<open>C3: with the sentinel read as failure, \<open>thread_time\<close> implements the
  specification of a sample: the calling thread's user and system CPU time
  when the thread is known to the kernel, failure otherwise.\<close>

theorem thread_time_refines_cpu_time_spec:
  assumes "pred_option acct_reportable (threads k t)"
  shows "thread_time_checked (fst (thread_time mach k t buf)) = cpu_time_spec k t"
  using thread_time_lib_mach_sound assms by (simp add: cpu_clock_sound_def thread_time_lib_def)

theorem thread_time_refines_cpu_time_spec_witness:
  "thread_time_checked (fst (thread_time mach demo_later 0 demo_buf)) = Some (1500, 250)"
proof -
  have "pred_option acct_reportable (threads demo_later 0)"
    using demo_run(4,5) by simp
  from thread_time_refines_cpu_time_spec [OF this, of demo_buf] demo_run(4)
  show ?thesis by (simp add: cpu_time_spec_def)
qed

text \<open>C6: the result of \<open>thread_time\<close> and the kernel state after it do
  not depend on what the uninitialised stack buffer held: the success branch
  reads only what \<open>thread_info\<close> wrote and the failure branch reads nothing.\<close>

theorem thread_time_ignores_stale_buffer:
  "thread_time mach k t buf1 = thread_time mach k t buf2"
  by (simp add: prod_eq_iff fst_thread_time_mach snd_thread_time_mach)

text \<open>C7: every call leaves the task with one more user reference on the
  calling thread's port, and nothing in \<open>thread_time\<close> releases it: after
  \<open>n\<close> samples the thread port carries \<open>n\<close> more references, up to the
  kernel's ceiling \<open>MACH_PORT_UREFS_MAX\<close>, while the accounting is
  untouched.\<close>

theorem thread_time_leaks_port_reference:
  assumes "kreach k"
  shows "urefs (repeat_thread_time n t buf k) t = min (urefs k t + n) MACH_PORT_UREFS_MAX \<and>
         threads (repeat_thread_time n t buf k) = threads k"
  using urefs_repeat_thread_time [OF kreach_urefs_bounded [OF assms]] threads_repeat_thread_time
  by simp

theorem thread_time_leaks_port_reference_witness:
  "urefs (repeat_thread_time 3 0 demo_buf demo_kernel) 0 = 3 \<and>
   threads (repeat_thread_time 3 0 demo_buf demo_kernel) = threads demo_kernel"
  using thread_time_leaks_port_reference [OF demo_run(1), of 3 0 demo_buf]
  by (simp add: MACH_PORT_UREFS_MAX_def)

text \<open>C8: the kernel's split of a microsecond total into seconds and
  microseconds, read back by \<open>time_value_to_us\<close>, gives the total exactly
  when it is below \<open>2^31\<close> seconds, and never beyond (the seconds wrap in
  \<open>integer_t\<close>).\<close>

theorem time_value_roundtrip:
  "sint (time_value_to_us (time_value_of_us n)) = int n \<longleftrightarrow> n < 2 ^ 31 * 1000000"
proof
  assume eq: "sint (time_value_to_us (time_value_of_us n)) = int n"
  show "n < 2 ^ 31 * 1000000"
  proof (rule ccontr)
    assume big: "\<not> n < 2 ^ 31 * 1000000"
    have "n mod 1000000 < 2 ^ 31" by simp
    then have u: "sint (microseconds (time_value_of_us n)) = int (n mod 1000000)"
      by (simp add: time_value_of_us_def c_int)
    have "sint (seconds (time_value_of_us n)) \<le> 2 ^ 31 - 1"
      using sint_int32_range(2) [of "seconds (time_value_of_us n)"] by simp
    moreover have "int (n mod 1000000) < 1000000" by simp
    ultimately have "sint (time_value_to_us (time_value_of_us n)) < 2 ^ 31 * 1000000"
      using u by (simp add: sint_time_value_to_us)
    with eq big show False by simp
  qed
next
  assume "n < 2 ^ 31 * 1000000"
  then show "sint (time_value_to_us (time_value_of_us n)) = int n"
    by (rule sint_time_value_of_us)
qed

theorem time_value_roundtrip_witness:
  "sint (time_value_to_us (time_value_of_us 2000003)) = 2000003 \<and>
   \<not> sint (time_value_to_us (time_value_of_us (2 ^ 31 * 1000000))) = 2 ^ 31 * 1000000"
  using time_value_roundtrip [of 2000003] time_value_roundtrip [of "2 ^ 31 * 1000000"] by simp

text \<open>C9: conversely, a normalised time value (what the kernel reports) is
  recovered from the microsecond count \<open>time_value_to_us\<close> makes of it.\<close>

theorem time_value_inverse_roundtrip:
  assumes "time_value_normalized t"
  shows "time_value_of_us (nat (sint (time_value_to_us t))) = t"
proof -
  let ?s = "sint (seconds t)" and ?u = "sint (microseconds t)"
  from assms have s0: "0 \<le> ?s" and u0: "0 \<le> ?u" and u1: "?u < 1000000"
    by (simp_all add: time_value_normalized_def)
  have v: "sint (time_value_to_us t) = ?s * 1000000 + ?u" by (rule sint_time_value_to_us)
  have x0: "0 \<le> ?s * 1000000 + ?u" using s0 u0 by simp
  have "nat (?s * 1000000 + ?u) div 1000000 = nat ((?s * 1000000 + ?u) div 1000000)"
    using nat_div_distrib [OF x0, of 1000000] by simp
  also have "(?s * 1000000 + ?u) div 1000000 = ?s" using u0 u1 by simp
  finally have d: "nat (sint (time_value_to_us t)) div 1000000 = nat ?s" unfolding v .
  have "nat (?s * 1000000 + ?u) mod 1000000 = nat ((?s * 1000000 + ?u) mod 1000000)"
    using nat_mod_distrib [OF x0, of 1000000] by simp
  also have "(?s * 1000000 + ?u) mod 1000000 = ?u" using u0 u1 by simp
  finally have m: "nat (sint (time_value_to_us t)) mod 1000000 = nat ?u" unfolding v .
  show ?thesis
    using s0 u0 by (simp add: time_value_of_us_def d m word_of_nat_nat_sint)
qed

theorem time_value_inverse_roundtrip_witness:
  "time_value_of_us (nat (sint (time_value_to_us \<lparr>seconds = 2, microseconds = 3\<rparr>))) =
     \<lparr>seconds = 2, microseconds = 3\<rparr>"
  by (rule time_value_inverse_roundtrip) (simp add: time_value_normalized_def)

text \<open>C14: a sample of a known thread has non-negative fields and so is never
  the failure sentinel.\<close>

theorem thread_time_live_valid:
  assumes "threads k t = Some a" "acct_reportable a"
  shows "0 \<le> sint (user_time_us (fst (thread_time mach k t buf))) \<and>
         0 \<le> sint (system_time_us (fst (thread_time mach k t buf))) \<and>
         fst (thread_time mach k t buf) \<noteq> thread_time_failed"
proof -
  have u: "sint (user_time_us (fst (thread_time mach k t buf))) = int (user_us a)"
    and y: "sint (system_time_us (fst (thread_time mach k t buf))) = int (system_us a)"
    using assms by (simp_all add: fst_thread_time_mach sint_thread_time_of_acct)
  note u y
  moreover have "fst (thread_time mach k t buf) \<noteq> thread_time_failed"
    using assms by (simp add: fst_thread_time_mach thread_time_of_acct_not_failed)
  ultimately show ?thesis by simp
qed

theorem thread_time_live_valid_witness:
  "0 \<le> sint (user_time_us (fst (thread_time mach demo_later 0 demo_buf))) \<and>
   0 \<le> sint (system_time_us (fst (thread_time mach demo_later 0 demo_buf))) \<and>
   fst (thread_time mach demo_later 0 demo_buf) \<noteq> thread_time_failed"
  by (rule thread_time_live_valid [OF demo_run(4,5)])

text \<open>C15: threads do not disturb each other's samples: a kernel event that is
  not about thread \<open>t\<close> (another thread running, being created or
  terminating, port traffic) leaves \<open>t\<close>'s sample unchanged.\<close>

theorem thread_time_noninterference:
  assumes "kreach k" "threads k t \<noteq> None" "kstep k e = Some k'" "kevent_acct e \<noteq> Some t"
  shows "fst (thread_time mach k' t buf) = fst (thread_time mach k t buf)"
proof -
  from assms(2) obtain a where a: "threads k t = Some a" by blast
  from assms(1) have "kernel_wf k" by (rule kreach_wf)
  with assms(3) a assms(4) have "threads k' t = Some a"
    by (rule_tac kstep_other_thread)
  with a show ?thesis by (simp add: fst_thread_time_mach)
qed

theorem thread_time_noninterference_witness:
  "fst (thread_time mach (the (kstep (the (kstep demo_kernel Spawn)) (Run_user 1 70))) 0 demo_buf) =
     fst (thread_time mach (the (kstep demo_kernel Spawn)) 0 demo_buf)"
proof -
  let ?k = "the (kstep demo_kernel Spawn)"
  have reach: "kreach ?k"
    by (rule kreach.step [OF demo_run(1), of Spawn]) simp
  have live: "threads ?k 0 \<noteq> None" by simp
  have step: "kstep ?k (Run_user 1 70) = Some (the (kstep ?k (Run_user 1 70)))" by simp
  have other: "kevent_acct (Run_user 1 70) \<noteq> Some 0" by simp
  from thread_time_noninterference [OF reach live step other] show ?thesis .
qed

text \<open>C16: a thread that has just been created samples \<open>{0, 0}\<close>, not the
  sentinel.\<close>

theorem thread_time_fresh_thread:
  assumes "kstep k Spawn = Some k'"
  shows "fst (thread_time mach k' (next_thread k) buf) = \<lparr>user_time_us = 0, system_time_us = 0\<rparr>"
  using assms
  by (auto simp: fst_thread_time_mach thread_time_of_info_def basic_info_of_acct_def
      time_value_of_us_def time_value_to_us_def)

theorem thread_time_fresh_thread_witness:
  "fst (thread_time mach (the (kstep demo_kernel Spawn)) 1 demo_buf) = \<lparr>user_time_us = 0, system_time_us = 0\<rparr>"
proof -
  have "kstep demo_kernel Spawn = Some (the (kstep demo_kernel Spawn))" by simp
  from thread_time_fresh_thread [OF this, of demo_buf] show ?thesis by simp
qed

text \<open>C17: in any interleaving of kernel events and calls of \<open>thread_time\<close>
  by any number of threads, starting from a reachable kernel, the samples each
  thread obtains are non-decreasing in both fields, in the order it took
  them (as long as every sample was below \<open>2^31\<close> seconds).\<close>

theorem thread_samples_sorted:
  assumes "kreach k" "sys_run (k, []) es = Some (k', log)"
    and "\<forall>r \<in> set log. acct_reportable (charged r)"
  shows "sorted (map (\<lambda>s. sint (user_time_us s)) (samples_of t log)) \<and>
         sorted (map (\<lambda>s. sint (system_time_us s)) (samples_of t log))"
proof -
  from assms(1) have "kernel_wf k" by (rule kreach_wf)
  from sys_run_inv [OF assms(2) this sample_log_inv_Nil] have inv: "sample_log_inv k' log"
    by simp
  let ?log = "filter (\<lambda>r. caller r = t) log"
  from inv have "sorted_wrt (\<lambda>r1 r2. caller r1 = caller r2 \<longrightarrow> charged_le (charged r1) (charged r2)) ?log"
    by (simp add: sample_log_inv_def sorted_wrt_filter)
  then have "sorted_wrt (\<lambda>r1 r2. sint (user_time_us (sample r1)) \<le> sint (user_time_us (sample r2)) \<and>
                                  sint (system_time_us (sample r1)) \<le> sint (system_time_us (sample r2))) ?log"
  proof (rule sorted_wrt_mono_rel [rotated])
    fix r1 r2
    assume r1: "r1 \<in> set ?log" and r2: "r2 \<in> set ?log"
      and le: "caller r1 = caller r2 \<longrightarrow> charged_le (charged r1) (charged r2)"
    from r1 r2 inv assms(3) have
      "sample r1 = thread_time_of_info (basic_info_of_acct (charged r1))" "acct_reportable (charged r1)"
      "sample r2 = thread_time_of_info (basic_info_of_acct (charged r2))" "acct_reportable (charged r2)"
      by (auto simp: sample_log_inv_def)
    with r1 r2 le show "sint (user_time_us (sample r1)) \<le> sint (user_time_us (sample r2)) \<and>
                        sint (system_time_us (sample r1)) \<le> sint (system_time_us (sample r2))"
      by (simp add: sint_thread_time_of_acct charged_le_def)
  qed
  then show ?thesis
    unfolding samples_of_def sorted_wrt_map
    by (auto elim: sorted_wrt_mono_rel [rotated])
qed

theorem thread_samples_sorted_witness:
  "sorted (map (\<lambda>s. sint (user_time_us s)) (samples_of 0 (snd (the (sys_run (demo_kernel, [])
      [Call 0 demo_buf, Kernel (Run_user 0 1500), Kernel Spawn, Call 1 demo_buf,
       Kernel (Run_system 0 250), Call 0 demo_buf, Kernel (Run_user 1 40), Call 1 demo_buf]))))) \<and>
   sorted (map (\<lambda>s. sint (system_time_us s)) (samples_of 0 (snd (the (sys_run (demo_kernel, [])
      [Call 0 demo_buf, Kernel (Run_user 0 1500), Kernel Spawn, Call 1 demo_buf,
       Kernel (Run_system 0 250), Call 0 demo_buf, Kernel (Run_user 1 40), Call 1 demo_buf])))))"
proof -
  let ?es = "[Call 0 demo_buf, Kernel (Run_user 0 1500), Kernel Spawn, Call 1 demo_buf,
              Kernel (Run_system 0 250), Call 0 demo_buf, Kernel (Run_user 1 40), Call 1 demo_buf]"
  let ?st = "the (sys_run (demo_kernel, []) ?es)"
  have run: "sys_run (demo_kernel, []) ?es = Some (fst ?st, snd ?st)"
    by (simp add: thread_time_unfold kern_thread_self_def kern_thread_info_def)
  have rep: "\<forall>r \<in> set (snd ?st). acct_reportable (charged r)"
    by (simp add: thread_time_unfold kern_thread_self_def kern_thread_info_def acct_reportable_def)
  from thread_samples_sorted [OF demo_run(1) run rep] show ?thesis .
qed

text \<open>C19: \<open>thread_time\<close>'s request (the basic flavour, with exactly
  \<open>THREAD_BASIC_INFO_COUNT\<close> words of room) is one the kernel accepts: the
  sentinel comes back if and only if the calling thread is unknown.\<close>

theorem thread_time_fails_iff_unknown:
  assumes "pred_option acct_reportable (threads k t)"
  shows "fst (thread_time mach k t buf) = thread_time_failed \<longleftrightarrow> threads k t = None"
  using assms
  by (cases "threads k t") (simp_all add: fst_thread_time_mach thread_time_of_acct_not_failed)

theorem thread_time_fails_iff_unknown_witness:
  "fst (thread_time mach demo_later 0 demo_buf) \<noteq> thread_time_failed \<and>
   fst (thread_time mach demo_later 5 demo_buf) = thread_time_failed"
proof -
  have "pred_option acct_reportable (threads demo_later 0)"
    using demo_run(4,5) by simp
  moreover have "pred_option acct_reportable (threads demo_later 5)"
    by (simp add: snd_thread_time_mach kern_thread_self_def)
  ultimately show ?thesis
    using thread_time_fails_iff_unknown [of demo_later 0 demo_buf]
          thread_time_fails_iff_unknown [of demo_later 5 demo_buf] demo_run(4)
    by (simp add: snd_thread_time_mach kern_thread_self_def)
qed

text \<open>C20: the leak is eventually permanent.  A thread that keeps sampling
  itself reaches, after at most \<open>MACH_PORT_UREFS_MAX\<close> calls, a state in
  which its port's user-reference count is pegged at the ceiling; from then
  on no sequence of kernel events, deallocations included, brings it back
  down, so the send right can never be released.\<close>

theorem thread_time_pins_port_reference:
  assumes "kreach k" "MACH_PORT_UREFS_MAX - urefs k t \<le> n"
  shows "urefs (repeat_thread_time n t buf k) t = MACH_PORT_UREFS_MAX \<and>
         (\<forall>es k'. krun (repeat_thread_time n t buf k) es = Some k' \<longrightarrow>
                  urefs k' t = MACH_PORT_UREFS_MAX)"
proof -
  have "urefs (repeat_thread_time n t buf k) t = MACH_PORT_UREFS_MAX"
    using urefs_repeat_thread_time [OF kreach_urefs_bounded [OF assms(1)]] assms(2) by simp
  then show ?thesis by (blast intro: krun_pegged)
qed

theorem thread_time_pins_port_reference_witness:
  "urefs (repeat_thread_time 65535 0 demo_buf demo_kernel) 0 = MACH_PORT_UREFS_MAX \<and>
   (\<exists>k'. krun (repeat_thread_time 65535 0 demo_buf demo_kernel)
              [Port_deallocate 0, Port_deallocate 0] = Some k' \<and>
         urefs k' 0 = MACH_PORT_UREFS_MAX)"
proof -
  have "MACH_PORT_UREFS_MAX - urefs demo_kernel 0 \<le> 65535"
    by (simp add: MACH_PORT_UREFS_MAX_def)
  from thread_time_pins_port_reference [OF demo_run(1) this, of demo_buf]
  have pegged: "urefs (repeat_thread_time 65535 0 demo_buf demo_kernel) 0 = MACH_PORT_UREFS_MAX"
    and stays: "\<forall>es k'. krun (repeat_thread_time 65535 0 demo_buf demo_kernel) es = Some k' \<longrightarrow>
                  urefs k' 0 = MACH_PORT_UREFS_MAX"
    by blast+
  have run: "krun (repeat_thread_time 65535 0 demo_buf demo_kernel)
               [Port_deallocate 0, Port_deallocate 0] =
             Some (repeat_thread_time 65535 0 demo_buf demo_kernel)"
    using pegged by (simp add: MACH_PORT_UREFS_MAX_def)
  from pegged stays [rule_format, OF run] run show ?thesis by blast
qed

text \<open>C21: a client that measures a region through the header's interface,
  checking both samples for the sentinel as the spec asks, gets from the
  repository's implementation exactly the CPU time the region charged the
  thread, or failure when the thread was unknown at either sample: it never
  subtracts a sentinel.\<close>

theorem measure_region_thread_time:
  assumes "pred_option acct_reportable (threads k t)"
    and "krun (snd (thread_time mach k t buf)) es = Some k2"
    and "pred_option acct_reportable (threads k2 t)"
  shows "measure_region (thread_time_lib mach) (\<lambda>k. krun k es) t buf k =
           Some (case (threads k t, threads k2 t) of
                   (Some a1, Some a2) \<Rightarrow>
                     Some (int (user_us a2) - int (user_us a1), int (system_us a2) - int (system_us a1))
                 | _ \<Rightarrow> None,
                 snd (thread_time mach k2 t buf))"
proof -
  have "measure_region (thread_time_lib mach) (\<lambda>k. krun k es) t buf k =
          Some (case (cpu_time_spec k t, cpu_time_spec k2 t) of
                  (Some (u1, s1), Some (u2, s2)) \<Rightarrow> Some (u2 - u1, s2 - s1)
                | _ \<Rightarrow> None,
                snd (thread_time_fn (thread_time_lib mach) k2 t buf))"
    using assms by (intro measure_region_sound [OF thread_time_lib_mach_sound])
                   (simp_all add: thread_time_lib_def)
  then show ?thesis
    by (cases "threads k t"; cases "threads k2 t") (simp_all add: cpu_time_spec_def thread_time_lib_def)
qed

theorem measure_region_thread_time_witness:
  "measure_region (thread_time_lib mach) (\<lambda>k. krun k demo_events) 0 demo_buf demo_kernel =
     Some (Some (1500, 250), snd (thread_time mach demo_later 0 demo_buf)) \<and>
   fst (the (measure_region (thread_time_lib mach) (\<lambda>k. krun k [Terminate 0]) 0 demo_buf demo_kernel)) = None"
proof -
  have "pred_option acct_reportable (threads demo_kernel 0)" by (simp add: acct_reportable_def)
  moreover have "pred_option acct_reportable (threads demo_later 0)"
    using demo_run(4,5) by simp
  ultimately have run: "measure_region (thread_time_lib mach) (\<lambda>k. krun k demo_events) 0 demo_buf demo_kernel =
      Some (Some (1500, 250), snd (thread_time mach demo_later 0 demo_buf))"
    using measure_region_thread_time [OF _ demo_run(3)] demo_run(4) by simp
  let ?k2 = "(snd (thread_time mach demo_kernel 0 demo_buf))\<lparr>threads := (threads demo_kernel)(0 := None)\<rparr>"
  have "krun (snd (thread_time mach demo_kernel 0 demo_buf)) [Terminate 0] = Some ?k2"
    by (simp add: snd_thread_time_mach)
  moreover have "pred_option acct_reportable (threads ?k2 0)" by simp
  ultimately have "measure_region (thread_time_lib mach) (\<lambda>k. krun k [Terminate 0]) 0 demo_buf demo_kernel =
      Some (None, snd (thread_time mach ?k2 0 demo_buf))"
    using measure_region_thread_time [of demo_kernel 0 demo_buf "[Terminate 0]" ?k2]
    by (simp add: acct_reportable_def)
  with run show ?thesis by simp
qed

text \<open>C22: the busy loop terminates.  A live thread that samples itself and,
  while its user time is below a reportable target, runs one more
  microsecond, leaves the loop after finitely many rounds, having reached the
  target exactly (or at once, if it was already past it).\<close>

theorem spin_user_terminates:
  assumes "threads k t = Some a" "acct_reportable a" "sint target < 2 ^ 31 * 1000000"
  shows "\<exists>k'. spin_user (thread_time_lib mach) (\<lambda>k. kstep k (Run_user t 1)) t buf target k =
                Some (True, k') \<and>
              threads k' t = Some (a\<lparr>user_us := max (user_us a) (nat (sint target))\<rparr>)"
  using assms
proof (induction "nat (sint target) - user_us a" arbitrary: k a)
  case 0
  then have le: "sint target \<le> int (user_us a)" by linarith
  show ?case
    unfolding spin_user_mach_step [OF "0.prems"(1,2)] if_P [OF le]
    using "0.prems"(1) le by (simp add: max_def)
next
  case (Suc m)
  let ?a' = "a\<lparr>user_us := user_us a + 1\<rparr>"
  let ?k2 = "snd (kern_thread_self k t)\<lparr>threads := (threads k)(t \<mapsto> ?a')\<rparr>"
  from Suc.hyps(2) have below: "\<not> sint target \<le> int (user_us a)" by linarith
  from Suc.hyps(2) Suc.prems(2,3) have "acct_reportable ?a'"
    by (simp add: acct_reportable_def)
  moreover from Suc.hyps(2) have "m = nat (sint target) - user_us ?a'" by simp
  ultimately obtain k' where
    run: "spin_user (thread_time_lib mach) (\<lambda>k. kstep k (Run_user t 1)) t buf target ?k2 = Some (True, k')"
    and acct: "threads k' t = Some (?a'\<lparr>user_us := max (user_us ?a') (nat (sint target))\<rparr>)"
    using Suc.hyps(1) [of ?a' ?k2] Suc.prems(3) by auto
  from Suc.hyps(2) acct have "threads k' t = Some (a\<lparr>user_us := max (user_us a) (nat (sint target))\<rparr>)"
    by (simp add: max_def)
  with run show ?case
    unfolding spin_user_mach_step [OF Suc.prems(1,2)] if_not_P [OF below] by blast
qed

theorem spin_user_terminates_witness:
  "\<exists>k'. spin_user (thread_time_lib mach) (\<lambda>k. kstep k (Run_user 0 1)) 0 demo_buf 1500 demo_kernel =
          Some (True, k') \<and>
        threads k' 0 = Some \<lparr>user_us = 1500, system_us = 0\<rparr>"
proof -
  have "acct_reportable \<lparr>user_us = 0, system_us = 0\<rparr>" by (simp add: acct_reportable_def)
  moreover have "sint (1500 :: int64) < 2 ^ 31 * 1000000" by simp
  ultimately show ?thesis
    using spin_user_terminates [OF demo_run(2), of 1500 demo_buf] by (simp del: kstep.simps)
qed

end
